theory Spec2Isabelle
  imports Complex_Main "HOL-Library.Word" "HOL-Library.AList"
begin

unbundle bit_operations_syntax

chapter \<open>The model: definitions translated from the TypeScript sources\<close>

section \<open>Common data: bytes, JavaScript numbers, strings, JSON values\<close>

text \<open>
  A \<open>Uint8Array\<close> is a list of 8-bit words. A JavaScript \<open>number\<close> that holds a
  count, an index or a millisecond time is an \<open>int\<close> (or a \<open>nat\<close> where the code
  can only produce a non-negative value); one that may hold a fraction (attribute
  values, rates, JSON numbers) is a \<open>rat\<close>, the exact value of a finite double, and
  arithmetic on it is exact (the rounding of doubles is outside the model).
  \<open>undefined\<close> is \<open>None\<close>. A JavaScript object used as a dictionary is an association
  list in insertion order, read with \<open>map_of\<close>, written with \<open>AList.update\<close> (a new
  key goes last, an old key keeps its place) and \<open>AList.delete\<close>.
\<close>

type_synonym byte = "8 word"

datatype json =
    JNull
  | JBool bool
  | JNum rat
  | JStr string
  | JArr "json list"
  | JObj "(string \<times> json) list"

subsection \<open>String primitives of the JavaScript library\<close>

definition startsWith :: "string \<Rightarrow> string \<Rightarrow> bool" where
  "startsWith s p = (take (length p) s = p)"

definition endsWith :: "string \<Rightarrow> string \<Rightarrow> bool" where
  "endsWith s p = (length p \<le> length s \<and> drop (length s - length p) s = p)"

text \<open>\<open>s.padStart(targetLength, c)\<close> for a one-character pad string; a target that is
  \<open>NaN\<close> (\<open>None\<close>) or not above the length leaves \<open>s\<close> as it is.\<close>

definition padStart :: "string \<Rightarrow> int option \<Rightarrow> char \<Rightarrow> string" where
  "padStart s targetLength c =
     (case targetLength of
        None \<Rightarrow> s
      | Some t \<Rightarrow> replicate (nat (t - int (length s))) c @ s)"

text \<open>\<open>s.split(c)\<close> for a one-character separator: the pieces between the separators,
  always at least one piece.\<close>

fun splitOn :: "char \<Rightarrow> string \<Rightarrow> string list" where
  "splitOn c [] = [[]]"
| "splitOn c (x # xs) =
     (if x = c then [] # splitOn c xs
      else (case splitOn c xs of
              [] \<Rightarrow> [[x]]
            | p # ps \<Rightarrow> (x # p) # ps))"

text \<open>\<open>s.indexOf(c)\<close>: the first position of \<open>c\<close>, or \<open>None\<close> for \<open>-1\<close>.\<close>

fun indexOf :: "char \<Rightarrow> string \<Rightarrow> nat option" where
  "indexOf c [] = None"
| "indexOf c (x # xs) = (if x = c then Some 0 else map_option Suc (indexOf c xs))"

definition digitChar :: "nat \<Rightarrow> char" where
  "digitChar d = ''0123456789abcdefghijklmnopqrstuvwxyz'' ! d"

text \<open>The value of a decimal digit, from its character code.\<close>

definition digitVal :: "char \<Rightarrow> nat option" where
  "digitVal c =
     (let code = (of_char c :: nat) in
      if 48 \<le> code \<and> code \<le> 57 then Some (code - 48) else None)"

definition isDigit :: "char \<Rightarrow> bool" where
  "isDigit c = (digitVal c \<noteq> None)"

text \<open>The digits of a natural number in a radix from 2 to 36, most significant first.\<close>

function natToDigits :: "nat \<Rightarrow> nat \<Rightarrow> string" where
  "natToDigits radix m =
     (if radix < 2 \<or> m < radix then [digitChar m]
      else natToDigits radix (m div radix) @ [digitChar (m mod radix)])"
  by pat_completeness auto
termination
  by (relation "measure (\<lambda>(radix, m). m)") auto

declare natToDigits.simps [simp del]

text \<open>\<open>Number.prototype.toString(radix)\<close> on an integer value: a minus sign and the
  digits of the magnitude.\<close>

definition intToString :: "nat \<Rightarrow> int \<Rightarrow> string" where
  "intToString radix i =
     (if i < 0 then CHR ''-'' # natToDigits radix (nat (- i)) else natToDigits radix (nat i))"

text \<open>The value of a string of decimal digits, read left to right.\<close>

definition digitsVal :: "string \<Rightarrow> nat" where
  "digitsVal ds = foldl (\<lambda>acc c. 10 * acc + the (digitVal c)) 0 ds"

definition isWhiteSpace :: "char \<Rightarrow> bool" where
  "isWhiteSpace c = (c \<in> set [CHR '' '', CHR 0x09, CHR 0x0A, CHR 0x0B, CHR 0x0C, CHR 0x0D])"

text \<open>
  \<open>parseInt(s, 10)\<close>: leading white space is skipped (the ASCII white space; the
  Unicode spaces are outside the model), a sign is read, then the longest run of decimal
  digits; with no digit the result is \<open>NaN\<close>, here \<open>None\<close>.
\<close>

definition parseInt10 :: "string \<Rightarrow> int option" where
  "parseInt10 s =
     (let t = dropWhile isWhiteSpace s;
          neg = (t \<noteq> [] \<and> hd t = CHR ''-'');
          u = (if t \<noteq> [] \<and> (hd t = CHR ''-'' \<or> hd t = CHR ''+'') then tl t else t);
          ds = takeWhile isDigit u
      in if ds = [] then None
         else Some (if neg then - int (digitsVal ds) else int (digitsVal ds)))"

text \<open>The truthiness of a number: \<open>NaN\<close> and 0 are falsy.\<close>

definition truthyNum :: "int option \<Rightarrow> bool" where
  "truthyNum v = (case v of None \<Rightarrow> False | Some i \<Rightarrow> i \<noteq> 0)"

definition truthyStr :: "string option \<Rightarrow> bool" where
  "truthyStr v = (case v of None \<Rightarrow> False | Some s \<Rightarrow> s \<noteq> [])"

datatype js_error = RangeError

text \<open>
  \<open>Number.prototype.toFixed(fractionDigits)\<close> as ECMAScript defines it, on the exact
  value \<open>x\<close> of a finite double. \<open>fractionDigits\<close> is first made an integer
  (\<open>NaN\<close> becomes 0); outside 0..100 the call throws \<open>RangeError\<close>. A magnitude of
  \<open>10^21\<close> or more is printed by \<open>Number.prototype.toString\<close>, the parameter
  \<open>numToString\<close>. Otherwise \<open>n\<close> is the integer nearest to \<open>|x| * 10^f\<close>, the
  larger one on a tie, printed with at least \<open>f + 1\<close> digits and a point before the last
  \<open>f\<close> of them; a negative \<open>x\<close> gets a minus sign.
\<close>

definition toFixed :: "(rat \<Rightarrow> string) \<Rightarrow> rat \<Rightarrow> int option \<Rightarrow> js_error + string" where
  "toFixed numToString x fractionDigits =
     (let f = (case fractionDigits of None \<Rightarrow> 0 | Some d \<Rightarrow> d) in
      if f < 0 \<or> f > 100 then Inl RangeError
      else
        let s = (if x < 0 then ''-'' else '''');
            y = \<bar>x\<bar> in
        if y \<ge> 10 ^ 21 then Inr (s @ numToString y)
        else
          let fn = nat f;
              n = nat \<lfloor>y * 10 ^ fn + 1 / 2\<rfloor>;
              m0 = natToDigits 10 n;
              m1 = (if fn \<noteq> 0 \<and> length m0 \<le> fn
                    then replicate (fn + 1 - length m0) CHR ''0'' @ m0 else m0);
              m = (if fn \<noteq> 0
                   then take (length m1 - fn) m1 @ ''.'' @ drop (length m1 - fn) m1
                   else m1)
          in Inr (s @ m))"

section \<open>RaftDeviceStates.ts\<close>

text \<open>
  The interfaces of RaftDeviceStates.ts. Field \<open>name\<close> is \<open>attrName\<close>, field \<open>values\<close> is \<open>values'\<close> (a keyword of Isabelle) and field
  \<open>range\<close> is \<open>attrRange\<close> here (\<open>range\<close> is a constant of HOL).
\<close>

record DeviceAttributeState =
  attrName :: string
  newAttribute :: bool
  newData :: bool
  numNewValues :: int
  values' :: "rat list"
  units :: string
  attrRange :: "rat list"
  format :: string
  visibleSeries :: bool
  visibleForm :: bool

type_synonym DeviceAttributesState = "(string \<times> DeviceAttributeState) list"

record DeviceTimeline =
  timestampsUs :: "int list"
  lastReportTimestampUs :: int
  reportTimestampOffsetUs :: int

record WindowEvent =
  timeMs :: int
  samples :: int

text \<open>\<open>DeviceStats\<close>, with the \<open>windowEvents\<close> member that
  \<open>DeviceStatsInternal\<close> of RaftDeviceManager.ts adds.\<close>

record DeviceStatsInternal =
  totalSamples :: int
  windowMs :: int
  windowSamples :: int
  sampleRateHz :: rat
  lastSampleTimeMs :: "int option"
  lastUpdateTimeMs :: "int option"
  windowEvents :: "WindowEvent list"

text \<open>
  \<open>deviceAttrGetLatestFormatted\<close>. \<open>numToString\<close> is
  \<open>Number.prototype.toString()\<close> on an arbitrary double (the shortest decimal that
  reads back as the same double), which the exact values of the model do not determine.
  \<open>Math.floor(value).toString(10)\<close> prints the digits of the integer while its
  magnitude is below \<open>10^21\<close> and goes through \<open>numToString\<close> above that. The only
  exception the function can raise is the \<open>RangeError\<close> of \<open>toFixed\<close>.
\<close>

definition floorToString10 :: "(rat \<Rightarrow> string) \<Rightarrow> rat \<Rightarrow> string" where
  "floorToString10 numToString v =
     (if \<bar>\<lfloor>v\<rfloor>\<bar> < 10 ^ 21 then intToString 10 \<lfloor>v\<rfloor> else numToString (of_int \<lfloor>v\<rfloor>))"

text \<open>The chain of \<open>endsWith\<close> tests of \<open>deviceAttrGetLatestFormatted\<close>, on the
  latest value and the format with its leading \<open>%\<close> removed.\<close>

definition formatValue :: "(rat \<Rightarrow> string) \<Rightarrow> rat \<Rightarrow> string \<Rightarrow> js_error + string" where
  "formatValue numToString val fmt =
     (if endsWith fmt ''f'' then
        let parts = splitOn CHR ''.'' fmt;
            decimalPlaces = (if length parts = 2 then parseInt10 (parts ! 1) else Some 0)
        in (case toFixed numToString val decimalPlaces of
              Inl e \<Rightarrow> Inl e
            | Inr formattedNumber \<Rightarrow>
                let fieldWidth = parseInt10 (parts ! 0) in
                Inr (if truthyNum fieldWidth
                     then padStart formattedNumber fieldWidth CHR '' ''
                     else formattedNumber))
      else if endsWith fmt ''x'' then
        let totalLength = parseInt10 (butlast fmt) in
        Inr (padStart (intToString 16 \<lfloor>val\<rfloor>) totalLength
               (if startsWith fmt ''0'' then CHR ''0'' else CHR '' ''))
      else if endsWith fmt ''d'' then
        let totalLength = parseInt10 (butlast fmt) in
        Inr (padStart (floorToString10 numToString val) totalLength
               (if startsWith fmt ''0'' then CHR ''0'' else CHR '' ''))
      else if endsWith fmt ''b'' then
        Inr (if \<lfloor>val\<rfloor> = 0 then ''no'' else ''yes'')
      else Inr (numToString val))"

definition deviceAttrGetLatestFormatted ::
  "(rat \<Rightarrow> string) \<Rightarrow> DeviceAttributeState \<Rightarrow> js_error + string" where
  "deviceAttrGetLatestFormatted numToString attrState =
     (if length (values' attrState) = 0 then Inr ''N/A''
      else if length (format attrState) = 0 then Inr (numToString (last (values' attrState)))
      else
        formatValue numToString (last (values' attrState))
          (if startsWith (format attrState) ''%'' then drop 1 (format attrState)
           else format attrState))"

text \<open>\<open>formatDeviceAddrHex\<close>, \<open>getDeviceKey\<close> and \<open>parseDeviceKey\<close>.\<close>

definition formatDeviceAddrHex :: "int \<Rightarrow> string" where
  "formatDeviceAddrHex addr = intToString 16 addr"

definition getDeviceKey :: "string \<Rightarrow> string \<Rightarrow> string" where
  "getDeviceKey busNumberAsString devAddrHexStr = busNumberAsString @ ''_'' @ devAddrHexStr"

definition parseDeviceKey :: "string \<Rightarrow> string \<times> string" where
  "parseDeviceKey deviceKey =
     (case indexOf CHR ''_'' deviceKey of
        None \<Rightarrow> (deviceKey, '''')
      | Some sep \<Rightarrow> (take sep deviceKey, drop (sep + 1) deviceKey))"

text \<open>
  The format strings of the spec, \<open>%[0][width][.precision]conv\<close>: an optional \<open>%\<close>,
  the digits \<open>wd\<close> of the zero flag and the width, a precision part that is empty or a
  point and the digits \<open>pd\<close>, and the conversion character. \<open>precDigits\<close> says that
  \<open>precPart\<close> is such a precision part; \<open>stopChar\<close> are the characters that can
  follow the width.
\<close>

definition stopChar :: "char \<Rightarrow> bool" where
  "stopChar c =
     (c = CHR ''.'' \<or> c = CHR ''f'' \<or> c = CHR ''x'' \<or> c = CHR ''d'' \<or> c = CHR ''b'')"

definition precDigits :: "string \<Rightarrow> string \<Rightarrow> bool" where
  "precDigits precPart pd = ((precPart = [] \<and> pd = []) \<or> precPart = CHR ''.'' # pd)"

section \<open>RaftPublish.ts: frame classification\<close>

datatype frameType = FrameUnknown | FrameJson | FrameBinary

text \<open>
  \<open>RaftPublishFrameMeta\<close> is declared in RaftTypes.ts; the fields are the ones
  \<open>inspectPublishFrame\<close> writes, every optional field an \<open>option\<close>.
\<close>

record RaftPublishFrameMeta =
  frameType :: frameType
  topicIndex :: "rat option"
  topicName :: "string option"
  version :: "rat option"
  jsonString :: "string option"
  binaryHasEnvelope :: "bool option"
  binaryPayloadOffset :: "nat option"

definition metaOf :: "frameType \<Rightarrow> RaftPublishFrameMeta" where
  "metaOf ft = \<lparr>frameType = ft, topicIndex = None, topicName = None, version = None,
     jsonString = None, binaryHasEnvelope = None, binaryPayloadOffset = None\<rparr>"

definition RAFT_PUBLISH_PREFIX_LEN :: nat where
  "RAFT_PUBLISH_PREFIX_LEN = 2"

definition DEVBIN_MAGIC_MIN :: byte where
  "DEVBIN_MAGIC_MIN = 0xDB"

definition DEVBIN_MAGIC_MAX :: byte where
  "DEVBIN_MAGIC_MAX = 0xDF"

definition DEVBIN_VERSION_BASE :: rat where
  "DEVBIN_VERSION_BASE = 0xDA"

definition byteNum :: "byte \<Rightarrow> rat" where
  "byteNum b = of_nat (unat b)"

text \<open>
  \<open>inspectPublishFrame\<close>. The JSON branch calls \<open>TextDecoder\<close> and \<open>JSON.parse\<close>;
  both are the parameter \<open>parseJson\<close>, which gives the decoded text and the members of
  the parsed object, or \<open>None\<close> where either throws. \<open>topicLookup\<close> is the optional
  callback.
\<close>

definition inspectPublishFrame ::
  "(byte list \<Rightarrow> (string \<times> (string \<times> json) list) option) \<Rightarrow> byte list \<Rightarrow>
   (rat \<Rightarrow> string option) option \<Rightarrow> RaftPublishFrameMeta" where
  "inspectPublishFrame parseJson payload topicLookup =
    (if length payload < RAFT_PUBLISH_PREFIX_LEN then metaOf FrameUnknown
     else let payloadStartPos = RAFT_PUBLISH_PREFIX_LEN in
     if length payload \<le> payloadStartPos then metaOf FrameUnknown
     else if payload ! payloadStartPos = 0x7B then
       (case parseJson (drop payloadStartPos payload) of
          None \<Rightarrow> metaOf FrameUnknown
        | Some (jsonStr, jsonObj) \<Rightarrow>
            let (tIndex, tName) =
              (case map_of jsonObj ''_t'' of
                 Some (JNum i) \<Rightarrow>
                   (Some i, (case topicLookup of Some f \<Rightarrow> f i | None \<Rightarrow> None))
               | Some (JStr s) \<Rightarrow> (None, Some s)
               | _ \<Rightarrow> (None, None));
              ver = (case map_of jsonObj ''_v'' of Some (JNum v) \<Rightarrow> Some v | _ \<Rightarrow> None)
            in (metaOf FrameJson)\<lparr>topicIndex := tIndex, topicName := tName, version := ver,
                  jsonString := Some jsonStr\<rparr>)
     else let firstBinaryByte = payload ! payloadStartPos in
     if firstBinaryByte AND 0xF0 = 0xD0 then
       (if firstBinaryByte < DEVBIN_MAGIC_MIN \<or> firstBinaryByte > DEVBIN_MAGIC_MAX then
          (metaOf FrameBinary)\<lparr>binaryHasEnvelope := Some True\<rparr>
        else
          let tIndex = (if length payload > payloadStartPos + 1
                        then Some (payload ! (payloadStartPos + 1)) else None);
              tName = (case (tIndex, topicLookup) of
                         (Some i, Some f) \<Rightarrow> (if i \<noteq> 0xFF then f (byteNum i) else None)
                       | _ \<Rightarrow> None)
          in (metaOf FrameBinary)\<lparr>topicIndex := map_option byteNum tIndex, topicName := tName,
                version := Some (byteNum firstBinaryByte - DEVBIN_VERSION_BASE),
                binaryHasEnvelope := Some True,
                binaryPayloadOffset := Some (payloadStartPos + 2)\<rparr>)
     else (metaOf FrameBinary)\<lparr>binaryHasEnvelope := Some False,
             binaryPayloadOffset := Some payloadStartPos\<rparr>)"

section \<open>RaftDeviceManager.ts: the data of the device manager\<close>

subsection \<open>Declarations the manager imports\<close>

text \<open>
  RaftDeviceInfo.ts, RaftTypes.ts and RaftSystemUtils.ts are not among the sources. Each
  record below holds the members that RaftDeviceManager.ts reads, under the source's names
  with a prefix (\<open>n\<close>, \<open>a\<close>, \<open>t\<close>, \<open>w\<close> alone would capture every variable of
  that name); the members it never reads are kept as the parsed JSON in the \<open>_other\<close>
  field, so a schema is more than the names of its attributes.
\<close>

record DeviceTypeAttribute =
  attr_n :: string
  attr_other :: "(string \<times> json) list"

record DeviceTypePollRespMetadata =
  resp_a :: "DeviceTypeAttribute list"
  resp_other :: "(string \<times> json) list"

record DeviceTypeInfo =
  dti_name :: "string option"
  dti_resp :: "DeviceTypePollRespMetadata option"
  dti_other :: "(string \<times> json) list"

record DeviceTypeAction =
  act_n :: string
  act_t :: "string option"
  act_w :: "string option"
  act_wz :: "string option"
  act_sub :: "rat option"
  act_mul :: "rat option"
  act_concat :: "bool option"

text \<open>
  \<open>DeviceOnlineState\<close> and the \<open>onlineState\<close> member of \<open>DeviceState\<close>: the manager
  imports the enumeration from RaftDeviceStates.ts and writes \<open>onlineState\<close>, but the
  copy of that file among the sources still declares \<open>isOnline: boolean\<close> and no
  enumeration. Modelled from the spec: the three values "online/offline/pending-deletion"
  of section 3, under the names the manager uses.
\<close>

datatype DeviceOnlineState = Offline | Online | PendingDeletion

record DeviceState =
  deviceTypeInfo :: "DeviceTypeInfo option"
  deviceTimeline :: DeviceTimeline
  deviceAttributes :: DeviceAttributesState
  deviceIsNew :: bool
  stateChanged :: bool
  onlineState :: DeviceOnlineState
  deviceAddress :: string
  deviceType :: string
  busName :: string

text \<open>\<open>DeviceDecodedData\<close> of RaftDeviceManager.ts (fields prefixed \<open>dd_\<close>).\<close>

record DeviceDecodedData =
  dd_deviceKey :: string
  dd_busName :: string
  dd_deviceAddress :: string
  dd_deviceType :: string
  dd_attrGroupName :: "string option"
  dd_attrValues :: "(string \<times> rat list) list"
  dd_timestampsUs :: "int list"
  dd_markers :: "(string \<times> json) list option"
  dd_fromOfflineBuffer :: "bool option"

text \<open>
  What \<open>msgHandler.sendRICRESTURL(cmd)\<close> settles to: it throws, or gives nothing, or
  gives a reply with its \<open>rslt\<close> member and, for a type-info request, its
  \<open>devinfo\<close> member.
\<close>

datatype rpc_result = RpcThrows | RpcNull | RpcReply string "DeviceTypeInfo option"

record RaftSystemUtils =
  getPublishTopicName :: "nat \<Rightarrow> string option"
  getMsgHandler :: "(string \<Rightarrow> rpc_result) option"

subsection \<open>Observable effects\<close>

text \<open>
  A registered callback is known by a number. Calling it is recorded, with the arguments
  as they are at the moment of the call, in \<open>callbackLog\<close>; a command handed to
  \<open>sendRICRESTURL\<close> is recorded in \<open>rpcLog\<close>. Callbacks are observers: they do not
  change the manager and do not throw.
\<close>

datatype callback_event =
    NewDeviceCalled nat string DeviceState
  | NewAttributeCalled nat string DeviceAttributeState
  | NewDataCalled nat string DeviceAttributeState
  | DecodedDataCalled nat DeviceDecodedData
  | DeviceRemovedCalled nat string DeviceState

text \<open>
  An entry of \<open>_pendingDeviceTypeRequests\<close>: \<open>initiator\<close> is the call of
  \<open>getDeviceTypeInfo\<close> that created the request promise and awaits it,
  \<open>waitingQueue\<close> the later calls, each standing for its \<open>{resolve, reject}\<close> pair.
\<close>

record PendingTypeRequest =
  initiator :: nat
  waitingQueue :: "nat list"

record DeviceManager =
  maxDatapointsToStore :: nat
  minTimeBetweenDeviceTypeInfoRetrievalMs :: int
  devicesState :: "(string \<times> DeviceState) list"
  deviceLastUpdateTime :: "(string \<times> int) list"
  removeDevicesFlag :: bool
  removeDevicesTimeMs :: int
  systemUtils :: "RaftSystemUtils option"
  newDeviceCallbacks :: "nat list"
  newDeviceAttributeCallbacks :: "nat list"
  newAttributeDataCallbacks :: "nat list"
  decodedDataCallbacks :: "nat list"
  deviceRemovedCallbacks :: "nat list"
  debugMsgIndex :: nat
  statsWindowMs :: int
  deviceStats :: "(string \<times> DeviceStatsInternal) list"
  cachedDeviceTypeRecs :: "(string \<times> DeviceTypeInfo option) list"
  cachedDeviceTypePreviousAttemptTimes :: "(string \<times> int) list"
  pendingDeviceTypeRequests :: "(string \<times> PendingTypeRequest) list"
  callbackLog :: "callback_event list"
  rpcLog :: "string list"

text \<open>The manager as its field initialisers and its constructor leave it.\<close>

definition newDeviceManager :: DeviceManager where
  "newDeviceManager =
     \<lparr>maxDatapointsToStore = 1000,
      minTimeBetweenDeviceTypeInfoRetrievalMs = 60000,
      devicesState = [],
      deviceLastUpdateTime = [],
      removeDevicesFlag = True,
      removeDevicesTimeMs = 60000,
      systemUtils = None,
      newDeviceCallbacks = [],
      newDeviceAttributeCallbacks = [],
      newAttributeDataCallbacks = [],
      decodedDataCallbacks = [],
      deviceRemovedCallbacks = [],
      debugMsgIndex = 0,
      statsWindowMs = 5000,
      deviceStats = [],
      cachedDeviceTypeRecs = [],
      cachedDeviceTypePreviousAttemptTimes = [],
      pendingDeviceTypeRequests = [],
      callbackLog = [],
      rpcLog = []\<rparr>"


text \<open>The method \<open>setup\<close> (a keyword of Isabelle, hence the longer name).\<close>

definition setupManager :: "DeviceManager \<Rightarrow> RaftSystemUtils \<Rightarrow> DeviceManager" where
  "setupManager mgr utils = mgr\<lparr>systemUtils := Some utils\<rparr>"

definition addDeviceRemovedCallback :: "DeviceManager \<Rightarrow> nat \<Rightarrow> DeviceManager" where
  "addDeviceRemovedCallback mgr cb =
     (if cb \<in> set (deviceRemovedCallbacks mgr) then mgr
      else mgr\<lparr>deviceRemovedCallbacks := deviceRemovedCallbacks mgr @ [cb]\<rparr>)"

definition removeDeviceRemovedCallback :: "DeviceManager \<Rightarrow> nat \<Rightarrow> DeviceManager" where
  "removeDeviceRemovedCallback mgr cb =
     mgr\<lparr>deviceRemovedCallbacks := filter (\<lambda>c. c \<noteq> cb) (deviceRemovedCallbacks mgr)\<rparr>"

definition msgHandlerOf :: "DeviceManager \<Rightarrow> (string \<Rightarrow> rpc_result) option" where
  "msgHandlerOf mgr = (case systemUtils mgr of None \<Rightarrow> None | Some u \<Rightarrow> getMsgHandler u)"

subsection \<open>Device stats\<close>

definition createEmptyStats :: "DeviceManager \<Rightarrow> DeviceStatsInternal" where
  "createEmptyStats mgr =
     \<lparr>totalSamples = 0, windowMs = statsWindowMs mgr, windowSamples = 0, sampleRateHz = 0,
      lastSampleTimeMs = None, lastUpdateTimeMs = None, windowEvents = []\<rparr>"

definition getOrCreateDeviceStats ::
  "DeviceManager \<Rightarrow> string \<Rightarrow> DeviceStatsInternal \<times> DeviceManager" where
  "getOrCreateDeviceStats mgr deviceKey =
     (case map_of (deviceStats mgr) deviceKey of
        Some stats \<Rightarrow> (stats, mgr)
      | None \<Rightarrow>
          (createEmptyStats mgr,
           mgr\<lparr>deviceStats := AList.update deviceKey (createEmptyStats mgr) (deviceStats mgr)\<rparr>))"

definition resetDeviceStats :: "DeviceManager \<Rightarrow> string \<Rightarrow> DeviceManager" where
  "resetDeviceStats mgr deviceKey =
     mgr\<lparr>deviceStats := AList.update deviceKey (createEmptyStats mgr) (deviceStats mgr)\<rparr>"

text \<open>
  The body of \<open>updateDeviceStats\<close> on the stats object. The loop that shifts the head
  of \<open>windowEvents\<close> while it is older than the window start is \<open>dropWhile\<close>; the
  \<open>reduce\<close> is a left fold.
\<close>

definition updateStatsObject :: "DeviceStatsInternal \<Rightarrow> int \<Rightarrow> int \<Rightarrow> DeviceStatsInternal" where
  "updateStatsObject stats newSamples nowMs =
     (let s1 = stats\<lparr>lastUpdateTimeMs := Some nowMs\<rparr>;
          s2 = (if newSamples > 0
                then s1\<lparr>totalSamples := totalSamples s1 + newSamples,
                        lastSampleTimeMs := Some nowMs,
                        windowEvents := windowEvents s1 @ [\<lparr>timeMs = nowMs, samples = newSamples\<rparr>]\<rparr>
                else s1);
          windowStartMs = nowMs - windowMs s2;
          s3 = s2\<lparr>windowEvents := dropWhile (\<lambda>e. timeMs e < windowStartMs) (windowEvents s2)\<rparr>;
          winSamples = foldl (\<lambda>sum entry. sum + samples entry) 0 (windowEvents s3);
          s4 = s3\<lparr>windowSamples := winSamples\<rparr>
      in if length (windowEvents s4) = 0 then s4\<lparr>sampleRateHz := 0\<rparr>
         else
           let actualWindowMs = max 1 (nowMs - timeMs (hd (windowEvents s4)))
           in s4\<lparr>sampleRateHz := of_int (winSamples * 1000) / of_int actualWindowMs\<rparr>)"

definition updateDeviceStats :: "DeviceManager \<Rightarrow> string \<Rightarrow> int \<Rightarrow> int \<Rightarrow> DeviceManager" where
  "updateDeviceStats mgr deviceKey newSamples nowMs =
     (let (stats, mgr1) = getOrCreateDeviceStats mgr deviceKey
      in mgr1\<lparr>deviceStats :=
           AList.update deviceKey (updateStatsObject stats newSamples nowMs) (deviceStats mgr1)\<rparr>)"

definition getDeviceStats :: "DeviceManager \<Rightarrow> string \<Rightarrow> DeviceStatsInternal \<times> DeviceManager" where
  "getDeviceStats mgr deviceKey = getOrCreateDeviceStats mgr deviceKey"

subsection \<open>Removing a device\<close>

definition removeDevice :: "DeviceManager \<Rightarrow> string \<Rightarrow> DeviceManager" where
  "removeDevice mgr deviceKey =
     (let mgr1 =
        (case map_of (devicesState mgr) deviceKey of
           None \<Rightarrow> mgr
         | Some deviceState \<Rightarrow>
             let ds = deviceState\<lparr>onlineState := PendingDeletion\<rparr>
             in mgr\<lparr>devicesState := AList.update deviceKey ds (devicesState mgr),
                    callbackLog := callbackLog mgr @
                      map (\<lambda>cb. DeviceRemovedCalled cb deviceKey ds) (deviceRemovedCallbacks mgr)\<rparr>)
      in mgr1\<lparr>devicesState := AList.delete deviceKey (devicesState mgr1),
               deviceLastUpdateTime := AList.delete deviceKey (deviceLastUpdateTime mgr1),
               deviceStats := AList.delete deviceKey (deviceStats mgr1)\<rparr>)"

subsection \<open>Device type info: the single-flight cache\<close>

text \<open>
  \<open>getDeviceTypeInfo\<close> is an \<open>async\<close> function; JavaScript runs it, and everything
  else, one piece at a time, and a piece ends at an \<open>await\<close>. The model has one
  function for each piece:
  \<^item> \<open>getDeviceTypeInfo_call\<close>: a call, up to the point where it returns a value, or
    returns the promise of a queued waiter, or has started the request (the synchronous
    part of \<open>executeDeviceTypeInfoRequest\<close>: the attempt time, and the command handed
    to \<open>sendRICRESTURL\<close> when there is a message handler), stored the pending entry and
    awaits the request promise;
  \<^item> \<open>getDeviceTypeInfo_settle\<close>: what runs when the request settles with \<open>reply\<close>:
    the rest of \<open>executeDeviceTypeInfoRequest\<close> (the cache is written when \<open>rslt\<close>
    is "ok"; every failure is caught there and becomes \<open>undefined\<close>, so the
    \<open>catch\<close> branch of \<open>getDeviceTypeInfo\<close> is never taken), then the waiters are
    resolved in queue order, the initiator returns, and \<open>finally\<close> deletes the entry.
    It gives the result, the list of (call, value) deliveries, and the manager.
  A call is known by a number the caller chooses.

  The three dictionaries are plain objects made by \<open>{}\<close>, and the source tests a key
  with \<open>deviceType in dict\<close>. That test is also true for a name the object inherits
  from \<open>Object.prototype\<close>: the names of ECMAScript's \<open>Object.prototype\<close>, with those
  of its Annex B. For such a name that the dictionary does not hold itself:
  \<^item> the cache test succeeds and the call returns the inherited value (a function, or
    \<open>Object.prototype\<close> for \<open>__proto__\<close>), which is no type information: the outcome
    \<open>ReturnedInherited\<close>;
  \<^item> the pending test succeeds, the inherited value has no \<open>waitingQueue\<close>, the
    \<open>push\<close> throws inside the promise executor and the promise is rejected: the
    outcome \<open>Rejected\<close>;
  \<^item> the attempt-time test succeeds, \<open>Date.now()\<close> minus the inherited value is
    \<open>NaN\<close>, \<open>NaN < min\<close> is false, and the call is not rate limited.
  The dictionaries share one prototype, so the first of these returns before the other two
  are reached. A request is therefore started only for a key that is no inherited name, in
  particular not \<open>__proto__\<close>, and the assignments \<open>dict[deviceType] = ...\<close> of a
  started request and of its settlement are plain updates of the dictionary's own keys.
\<close>

definition objectPrototypeNames :: "string list" where
  "objectPrototypeNames =
     [''constructor'', ''hasOwnProperty'', ''isPrototypeOf'', ''propertyIsEnumerable'',
      ''toLocaleString'', ''toString'', ''valueOf'', ''__proto__'',
      ''__defineGetter__'', ''__defineSetter__'', ''__lookupGetter__'', ''__lookupSetter__'']"

text \<open>\<open>key in dict\<close> for a dictionary made by \<open>{}\<close>.\<close>

definition hasProperty :: "(string \<times> 'a) list \<Rightarrow> string \<Rightarrow> bool" where
  "hasProperty dict key = (map_of dict key \<noteq> None \<or> key \<in> set objectPrototypeNames)"

datatype call_outcome =
    Returned "DeviceTypeInfo option"
  | ReturnedInherited string
  | Rejected
  | Queued
  | Requested

definition typeInfoCmd :: "string \<Rightarrow> string \<Rightarrow> string" where
  "typeInfoCmd busNm devType = ''devman/typeinfo?bus='' @ busNm @ ''&type='' @ devType"

definition getDeviceTypeInfo_call ::
  "DeviceManager \<Rightarrow> nat \<Rightarrow> string \<Rightarrow> string \<Rightarrow> int \<Rightarrow> call_outcome \<times> DeviceManager" where
  "getDeviceTypeInfo_call mgr callId busNm devType nowMs =
     (if hasProperty (cachedDeviceTypeRecs mgr) devType
      then (case map_of (cachedDeviceTypeRecs mgr) devType of
              Some cached \<Rightarrow> (Returned cached, mgr)
            | None \<Rightarrow> (ReturnedInherited devType, mgr))
      else if hasProperty (pendingDeviceTypeRequests mgr) devType
      then (case map_of (pendingDeviceTypeRequests mgr) devType of
              Some pending \<Rightarrow>
                (Queued,
                 mgr\<lparr>pendingDeviceTypeRequests :=
                   AList.update devType (pending\<lparr>waitingQueue := waitingQueue pending @ [callId]\<rparr>)
                     (pendingDeviceTypeRequests mgr)\<rparr>)
            | None \<Rightarrow> (Rejected, mgr))
      else if hasProperty (cachedDeviceTypePreviousAttemptTimes mgr) devType
              \<and> (case map_of (cachedDeviceTypePreviousAttemptTimes mgr) devType of
                     None \<Rightarrow> False
                   | Some t \<Rightarrow> nowMs - t < minTimeBetweenDeviceTypeInfoRetrievalMs mgr)
      then (Returned None, mgr)
      else
        (Requested,
         mgr\<lparr>cachedDeviceTypePreviousAttemptTimes :=
                AList.update devType nowMs (cachedDeviceTypePreviousAttemptTimes mgr),
              rpcLog := (case msgHandlerOf mgr of
                           None \<Rightarrow> rpcLog mgr
                         | Some h \<Rightarrow> rpcLog mgr @ [typeInfoCmd busNm devType]),
              pendingDeviceTypeRequests :=
                AList.update devType \<lparr>initiator = callId, waitingQueue = []\<rparr>
                  (pendingDeviceTypeRequests mgr)\<rparr>))"

text \<open>
  The settlement of a started request; \<open>devType\<close> is the key of that request, which is
  no inherited name.
\<close>

definition getDeviceTypeInfo_settle ::
  "DeviceManager \<Rightarrow> string \<Rightarrow> rpc_result \<Rightarrow>
   DeviceTypeInfo option \<times> (nat \<times> DeviceTypeInfo option) list \<times> DeviceManager" where
  "getDeviceTypeInfo_settle mgr devType reply =
     (let (result, mgr1) =
        (case msgHandlerOf mgr of
           None \<Rightarrow> (None, mgr)
         | Some h \<Rightarrow>
             (case reply of
                RpcReply rslt devinfo \<Rightarrow>
                  if rslt = ''ok''
                  then (devinfo,
                        mgr\<lparr>cachedDeviceTypeRecs :=
                          AList.update devType devinfo (cachedDeviceTypeRecs mgr)\<rparr>)
                  else (None, mgr)
              | _ \<Rightarrow> (None, mgr)))
      in case map_of (pendingDeviceTypeRequests mgr1) devType of
           None \<Rightarrow> (result, [], mgr1)
         | Some pending \<Rightarrow>
             (result,
              map (\<lambda>w. (w, result)) (waitingQueue pending) @ [(initiator pending, result)],
              mgr1\<lparr>pendingDeviceTypeRequests :=
                AList.delete devType (pendingDeviceTypeRequests mgr1)\<rparr>))"

text \<open>
  \<open>await getDeviceTypeInfo(...)\<close> as the frame handler sees it when frames are handled
  one at a time (section 5 of the spec: "one frame fully processed before the next
  begins"): the call, and for a started request its settlement with what the message
  handler answers. No request is then in flight when a call is made, so the \<open>Queued\<close>
  outcome does not arise; the frame handler's keys are decimal numerals, which are no
  inherited names, so the \<open>ReturnedInherited\<close> and \<open>Rejected\<close> outcomes do not
  arise either (\<open>getDeviceTypeInfo_call_decimal\<close> below). The model gives these three
  the value \<open>undefined\<close>.
\<close>

definition getDeviceTypeInfo ::
  "DeviceManager \<Rightarrow> string \<Rightarrow> string \<Rightarrow> int \<Rightarrow> DeviceTypeInfo option \<times> DeviceManager" where
  "getDeviceTypeInfo mgr busNm devType nowMs =
     (case getDeviceTypeInfo_call mgr 0 busNm devType nowMs of
        (Returned r, mgr1) \<Rightarrow> (r, mgr1)
      | (ReturnedInherited nm, mgr1) \<Rightarrow> (None, mgr1)
      | (Rejected, mgr1) \<Rightarrow> (None, mgr1)
      | (Queued, mgr1) \<Rightarrow> (None, mgr1)
      | (Requested, mgr1) \<Rightarrow>
          let reply = (case msgHandlerOf mgr1 of
                         None \<Rightarrow> RpcNull
                       | Some h \<Rightarrow> h (typeInfoCmd busNm devType));
              (result, deliveries, mgr2) = getDeviceTypeInfo_settle mgr1 devType reply
          in (result, mgr2))"

subsection \<open>Sending actions\<close>

definition toHex :: "byte list \<Rightarrow> string" where
  "toHex bs = concat (map (\<lambda>b. padStart (natToDigits 16 (unat b)) (Some 2) CHR ''0'') bs)"

definition strOr :: "string option \<Rightarrow> string" where
  "strOr v = (case v of None \<Rightarrow> '''' | Some s \<Rightarrow> s)"

text \<open>
  \<open>sendAction\<close>, in three steps. \<open>actionPackValues\<close> is the list handed to
  \<open>structPack\<close>: for one data item the converted value, otherwise the data as given.
  \<open>actionWriteBytes\<close> packs it; \<open>structPack\<close> is in RaftStruct.ts, not among the
  sources, and is a parameter. \<open>sendAction\<close> builds the command, hands it to the message
  handler and gives the boolean the promise resolves to.
\<close>

definition actionPackValues :: "DeviceTypeAction \<Rightarrow> rat list \<Rightarrow> rat list" where
  "actionPackValues action dat =
     (if length dat = 1 then
        let v0 = dat ! 0;
            v1 = (case act_sub action of None \<Rightarrow> v0 | Some s \<Rightarrow> v0 - s);
            v2 = (case act_mul action of None \<Rightarrow> v1 | Some m \<Rightarrow> v1 * m)
        in [v2]
      else dat)"

definition actionWriteBytes ::
  "(string \<Rightarrow> rat list \<Rightarrow> byte list) \<Rightarrow> DeviceTypeAction \<Rightarrow> rat list \<Rightarrow> byte list" where
  "actionWriteBytes structPack action dat =
     (if truthyStr (act_t action) then structPack (the (act_t action)) (actionPackValues action dat)
      else [])"

definition actionCmd ::
  "(string \<Rightarrow> rat list \<Rightarrow> byte list) \<Rightarrow> string \<Rightarrow> DeviceTypeAction \<Rightarrow> rat list \<Rightarrow> string" where
  "actionCmd structPack deviceKey action dat =
     (let writeHexStr = strOr (act_w action) @ toHex (actionWriteBytes structPack action dat)
                          @ strOr (act_wz action);
          (devBus, devAddr) = parseDeviceKey deviceKey
      in ''devman/cmdraw?bus='' @ devBus @ ''&addr='' @ devAddr @ ''&hexWr='' @ writeHexStr)"

definition sendAction ::
  "(string \<Rightarrow> rat list \<Rightarrow> byte list) \<Rightarrow> DeviceManager \<Rightarrow> string \<Rightarrow> DeviceTypeAction \<Rightarrow>
   rat list \<Rightarrow> bool \<times> DeviceManager" where
  "sendAction structPack mgr deviceKey action dat =
     (let cmd = actionCmd structPack deviceKey action dat in
      case msgHandlerOf mgr of
        None \<Rightarrow> (False, mgr)
      | Some h \<Rightarrow>
          (case h cmd of
             RpcReply rslt devinfo \<Rightarrow> (rslt = ''ok'', mgr\<lparr>rpcLog := rpcLog mgr @ [cmd]\<rparr>)
           | _ \<Rightarrow> (False, mgr\<lparr>rpcLog := rpcLog mgr @ [cmd]\<rparr>)))"

text \<open>
  The loop of the second branch of \<open>sendCompoundAction\<close>, from index \<open>dataIdx\<close> on:
  \<open>allOk && await sendAction(...)\<close> does not call \<open>sendAction\<close> once \<open>allOk\<close> is
  false.
\<close>

fun compoundLoop ::
  "(string \<Rightarrow> rat list \<Rightarrow> byte list) \<Rightarrow> string \<Rightarrow> DeviceTypeAction \<Rightarrow> nat \<Rightarrow> rat list list \<Rightarrow>
   bool \<times> DeviceManager \<Rightarrow> bool \<times> DeviceManager" where
  "compoundLoop structPack deviceKey action dataIdx [] (allOk, mgr) = (allOk, mgr)"
| "compoundLoop structPack deviceKey action dataIdx (d # ds) (allOk, mgr) =
     (let dataToWrite = of_nat dataIdx # d in
      compoundLoop structPack deviceKey action (Suc dataIdx) ds
        (if allOk then sendAction structPack mgr deviceKey action dataToWrite
         else (False, mgr)))"

definition sendCompoundAction ::
  "(string \<Rightarrow> rat list \<Rightarrow> byte list) \<Rightarrow> DeviceManager \<Rightarrow> string \<Rightarrow> DeviceTypeAction \<Rightarrow>
   rat list list \<Rightarrow> bool \<times> DeviceManager" where
  "sendCompoundAction structPack mgr deviceKey action dat =
     (if act_concat action = Some True then
        sendAction structPack mgr deviceKey action (concat dat)
      else
        let (allOk, mgr1) = compoundLoop structPack deviceKey action 0 dat (True, mgr)
        in (False, mgr1))"

text \<open>
  The conversion as the spec words it (section 4.7, "subtract offset, multiply by ...
  schema-declared multiplier/subtrahend"): subtract \<open>sub\<close>, then multiply by \<open>mul\<close>,
  each when the action declares it. \<open>actionPackValues\<close> above is the code; this is what
  it is compared with.
\<close>

definition inverseConversion_spec :: "DeviceTypeAction \<Rightarrow> rat \<Rightarrow> rat" where
  "inverseConversion_spec action v =
     (v - (case act_sub action of None \<Rightarrow> 0 | Some s \<Rightarrow> s))
       * (case act_mul action of None \<Rightarrow> 1 | Some m \<Rightarrow> m)"

subsection \<open>Decoded-data events and markers\<close>

definition isTruthy :: "json option \<Rightarrow> bool" where
  "isTruthy v = (v = Some (JBool True) \<or> v = Some (JNum 1) \<or> v = Some (JStr ''1''))"

text \<open>
  \<open>extractMarkers\<close>. \<open>Object.entries\<close> of an array has the indices as keys; none
  starts with an underscore, so an array gives no marker, as every value that is not an
  object does. The result is the marker object as its own keys and their values. An entry
  under the key \<open>__proto__\<close> (which a parsed JSON object can have) passes the test, but
  \<open>markers["__proto__"] = value\<close> on an object made by \<open>{}\<close> is no definition of a
  key: it reaches the setter of \<open>Object.prototype\<close>, which replaces the prototype of
  \<open>markers\<close> when the value is an object or null and does nothing otherwise. The own keys
  stay as they are; the prototype of the marker object is not part of this model.
\<close>

definition extractMarkers :: "json \<Rightarrow> (string \<times> json) list" where
  "extractMarkers attrGroups =
     (case attrGroups of
        JObj entries \<Rightarrow>
          foldl (\<lambda>markers (key, v).
                   if startsWith key ''_'' \<and> key \<noteq> ''_t'' \<and> key \<noteq> ''_o''
                   then (if key = ''__proto__'' then markers else AList.update key v markers)
                   else markers)
            [] entries
      | _ \<Rightarrow> [])"

text \<open>
  \<open>snapshotAttrLengths\<close>: the length of each schema attribute's history before a
  record or entry is decoded. Here and in \<open>emitDecodedData\<close> the attribute names of a
  schema are taken to be no names of \<open>Object.prototype\<close> (see
  \<open>objectPrototypeNames\<close>): for such a name that the device has no attribute of,
  \<open>deviceAttrs[attr.n]\<close> is the inherited value and not \<open>undefined\<close>.
\<close>

definition snapshotAttrLengths ::
  "DeviceAttributesState \<Rightarrow> DeviceTypePollRespMetadata option \<Rightarrow> (string \<times> nat) list" where
  "snapshotAttrLengths deviceAttrs pollRespMetadata =
     (case pollRespMetadata of
        None \<Rightarrow> []
      | Some r \<Rightarrow>
          foldl (\<lambda>lengths attr.
                   AList.update (attr_n attr)
                     (case map_of deviceAttrs (attr_n attr) of
                        None \<Rightarrow> 0
                      | Some a \<Rightarrow> length (values' a))
                     lengths)
            [] (resp_a r))"

text \<open>The values each attribute of the schema gained since the snapshot, and whether
  there are any: the \<open>forEach\<close> at the head of \<open>emitDecodedData\<close>.\<close>

definition newAttrValues ::
  "DeviceState \<Rightarrow> DeviceTypePollRespMetadata \<Rightarrow> (string \<times> nat) list \<Rightarrow>
   (string \<times> rat list) list \<times> bool" where
  "newAttrValues deviceState r attrLengthsBefore =
     foldl (\<lambda>(attrVals, hasValues) attr.
              case map_of (deviceAttributes deviceState) (attr_n attr) of
                None \<Rightarrow> (attrVals, hasValues)
              | Some attrState \<Rightarrow>
                  let prevLen = (case map_of attrLengthsBefore (attr_n attr) of
                                   None \<Rightarrow> 0 | Some l \<Rightarrow> l)
                  in if length (values' attrState) > prevLen
                     then (AList.update (attr_n attr) (drop prevLen (values' attrState)) attrVals,
                           hasValues \<or> length (drop prevLen (values' attrState)) > 0)
                     else (attrVals, hasValues))
       ([], False) (resp_a r)"

text \<open>The \<open>decoded\<close> object that \<open>emitDecodedData\<close> builds once it has values.\<close>

definition decodedData ::
  "string \<Rightarrow> string \<Rightarrow> string \<Rightarrow> DeviceState \<Rightarrow> (string \<times> rat list) list \<Rightarrow> nat \<Rightarrow> string \<Rightarrow>
   (string \<times> json) list option \<Rightarrow> DeviceDecodedData" where
  "decodedData deviceKey busNm devAddr deviceState attrVals timelineLenBefore attrGroupNm markers =
     (let decoded =
        \<lparr>dd_deviceKey = deviceKey,
         dd_busName = busNm,
         dd_deviceAddress = devAddr,
         dd_deviceType = deviceType deviceState,
         dd_attrGroupName = (if attrGroupNm = [] then None else Some attrGroupNm),
         dd_attrValues = attrVals,
         dd_timestampsUs = drop timelineLenBefore (timestampsUs (deviceTimeline deviceState)),
         dd_markers = None,
         dd_fromOfflineBuffer = None\<rparr>
      in case markers of
           None \<Rightarrow> decoded
         | Some m \<Rightarrow>
             if length m > 0
             then decoded\<lparr>dd_markers := Some m,
                          dd_fromOfflineBuffer := Some (isTruthy (map_of m ''_buf''))\<rparr>
             else decoded)"

definition emitDecodedData ::
  "DeviceManager \<Rightarrow> string \<Rightarrow> string \<Rightarrow> string \<Rightarrow> DeviceState \<Rightarrow>
   DeviceTypePollRespMetadata option \<Rightarrow> (string \<times> nat) list \<Rightarrow> nat \<Rightarrow> string \<Rightarrow>
   (string \<times> json) list option \<Rightarrow> DeviceManager" where
  "emitDecodedData mgr deviceKey busNm devAddr deviceState pollRespMetadata attrLengthsBefore
       timelineLenBefore attrGroupNm markers =
     (case pollRespMetadata of
        None \<Rightarrow> mgr
      | Some r \<Rightarrow>
          let (attrVals, hasValues) = newAttrValues deviceState r attrLengthsBefore in
          if \<not> hasValues then mgr
          else
            let decoded = decodedData deviceKey busNm devAddr deviceState attrVals
                            timelineLenBefore attrGroupNm markers
            in mgr\<lparr>callbackLog := callbackLog mgr @
                      map (\<lambda>cb. DecodedDataCalled cb decoded) (decodedDataCallbacks mgr)\<rparr>)"

subsection \<open>The attribute handler\<close>

text \<open>
  \<open>processMsgAttrGroup\<close> of RaftAttributeHandler.ts, which is not among the sources.
  In the model of the frame handler it is the parameter \<open>pmag\<close>: from the message, the
  position, the timeline, the schema, the attribute states and the history cap to the new
  position (negative on failure) and the timeline and attribute states as it leaves them.
\<close>

type_synonym attr_handler =
  "byte list \<Rightarrow> nat \<Rightarrow> DeviceTimeline \<Rightarrow> DeviceTypePollRespMetadata \<Rightarrow> DeviceAttributesState \<Rightarrow>
   nat \<Rightarrow> int \<times> DeviceTimeline \<times> DeviceAttributesState"

text \<open>
  Modelled from the spec: \<open>processMsgAttrGroup\<close> (RaftAttributeHandler.ts is missing).
  Section 4.4: the engine produces "one new sample per schema attribute (appended to each
  AttributeState and to the timeline)" and returns "the advanced cursor, or a failure
  sentinel"; step 7: "Append the final value to the attribute's history (trimmed to the
  configured cap, oldest-first eviction) and mark newData; mark newAttribute the first
  time this name is seen for the device"; section 7 (d): a failure does not corrupt the
  samples already appended. Steps 1 to 6, which compute the values from the bytes, are the
  parameter \<open>decodeSample\<close>: it gives the advanced cursor, the timestamp of the sample
  and the value of each attribute, or \<open>None\<close> when the data is insufficient or
  malformed.
\<close>

type_synonym sample_decoder =
  "byte list \<Rightarrow> nat \<Rightarrow> DeviceTimeline \<Rightarrow> DeviceTypePollRespMetadata \<Rightarrow>
   (nat \<times> int \<times> (string \<Rightarrow> rat)) option"

definition trimToCap :: "nat \<Rightarrow> 'a list \<Rightarrow> 'a list" where
  "trimToCap cap xs = drop (length xs - cap) xs"

definition newAttributeState :: "string \<Rightarrow> DeviceAttributeState" where
  "newAttributeState nm =
     \<lparr>attrName = nm, newAttribute = True, newData = True, numNewValues = 0, values' = [],
      units = '''', attrRange = [], format = '''', visibleSeries = True, visibleForm = True\<rparr>"

text \<open>The state of attribute \<open>nm\<close> after one more value: created when the name is
  new, the value appended, the history trimmed to the cap from its old end.\<close>

definition attrAfter ::
  "nat \<Rightarrow> (string \<Rightarrow> rat) \<Rightarrow> DeviceAttributesState \<Rightarrow> string \<Rightarrow> DeviceAttributeState" where
  "attrAfter cap vals attrs nm =
     (let st = (case map_of attrs nm of None \<Rightarrow> newAttributeState nm | Some a \<Rightarrow> a)
      in st\<lparr>values' := trimToCap cap (values' st @ [vals nm]), newData := True\<rparr>)"

definition appendAttrValue ::
  "nat \<Rightarrow> (string \<Rightarrow> rat) \<Rightarrow> DeviceAttributesState \<Rightarrow> DeviceTypeAttribute \<Rightarrow> DeviceAttributesState" where
  "appendAttrValue cap vals attrs attr =
     AList.update (attr_n attr) (attrAfter cap vals attrs (attr_n attr)) attrs"

definition appendSample ::
  "nat \<Rightarrow> DeviceTypePollRespMetadata \<Rightarrow> DeviceTimeline \<times> DeviceAttributesState \<Rightarrow>
   int \<times> (string \<Rightarrow> rat) \<Rightarrow> DeviceTimeline \<times> DeviceAttributesState" where
  "appendSample cap pollRespMetadata st sample =
     ((fst st)\<lparr>timestampsUs := trimToCap cap (timestampsUs (fst st) @ [fst sample])\<rparr>,
      foldl (appendAttrValue cap (snd sample)) (snd st) (resp_a pollRespMetadata))"

definition processMsgAttrGroup_spec :: "sample_decoder \<Rightarrow> attr_handler" where
  "processMsgAttrGroup_spec decodeSample msgBuffer msgBufIdx timeline pollRespMetadata attrs cap =
     (case decodeSample msgBuffer msgBufIdx timeline pollRespMetadata of
        None \<Rightarrow> (-1, timeline, attrs)
      | Some (newIdx, timestampUs, vals) \<Rightarrow>
          (int newIdx, appendSample cap pollRespMetadata (timeline, attrs) (timestampUs, vals)))"

subsection \<open>handleClientMsgBinary\<close>

definition msgTypeLen :: nat where
  "msgTypeLen = 2"

definition devbinEnvelopeLen :: nat where
  "devbinEnvelopeLen = 2"

definition devbinMagicMin :: byte where
  "devbinMagicMin = 0xDB"

definition devbinMagicMax :: byte where
  "devbinMagicMax = 0xDF"

definition recordLenLen :: nat where
  "recordLenLen = 2"

definition busInfoLen :: nat where
  "busInfoLen = 1"

definition deviceAddrLen :: nat where
  "deviceAddrLen = 4"

definition devTypeIdxLen :: nat where
  "devTypeIdxLen = 2"

definition recordHeaderLen :: nat where
  "recordHeaderLen = busInfoLen + deviceAddrLen + devTypeIdxLen"

text \<open>\<open>(rxMsg[p] << 8) + rxMsg[p + 1]\<close>.\<close>

definition getU16 :: "byte list \<Rightarrow> nat \<Rightarrow> nat" where
  "getU16 rxMsg p = unat (rxMsg ! p) * 256 + unat (rxMsg ! (p + 1))"

text \<open>
  The envelope check at the head of \<open>handleClientMsgBinary\<close>: the frame is dropped for
  a magic byte \<open>0xD0\<close>..\<open>0xDA\<close> and for a topic whose name is known and is not
  "devbin"; otherwise the records start after the envelope, or right after the prefix
  when there is no envelope.
\<close>

datatype envelope_check = BadMagic | OtherTopic | RecordsFrom nat

definition checkEnvelope :: "DeviceManager \<Rightarrow> byte list \<Rightarrow> envelope_check" where
  "checkEnvelope mgr rxMsg =
     (if length rxMsg \<ge> msgTypeLen + devbinEnvelopeLen then
        let envelopeMagicVer = rxMsg ! msgTypeLen in
        if envelopeMagicVer AND 0xF0 = 0xD0 then
          if envelopeMagicVer < devbinMagicMin \<or> envelopeMagicVer > devbinMagicMax then BadMagic
          else
            let topicIdx = rxMsg ! (msgTypeLen + 1);
                topicNm = (case systemUtils mgr of
                             None \<Rightarrow> None
                           | Some u \<Rightarrow> getPublishTopicName u (unat topicIdx))
            in if topicIdx \<noteq> 0xFF \<and> truthyStr topicNm \<and> topicNm \<noteq> Some ''devbin''
               then OtherTopic
               else RecordsFrom (msgTypeLen + devbinEnvelopeLen)
        else RecordsFrom msgTypeLen
      else RecordsFrom msgTypeLen)"

text \<open>The header fields of the record that starts at \<open>msgPos\<close>.\<close>

definition recStatusByte :: "byte list \<Rightarrow> nat \<Rightarrow> byte" where
  "recStatusByte rxMsg msgPos = rxMsg ! (msgPos + recordLenLen)"

definition recBusNum :: "byte list \<Rightarrow> nat \<Rightarrow> byte" where
  "recBusNum rxMsg msgPos = recStatusByte rxMsg msgPos AND 0x0f"

definition recIsOnline :: "byte list \<Rightarrow> nat \<Rightarrow> bool" where
  "recIsOnline rxMsg msgPos = (recStatusByte rxMsg msgPos AND 0x80 \<noteq> 0)"

definition recIsPendingDeletion :: "byte list \<Rightarrow> nat \<Rightarrow> bool" where
  "recIsPendingDeletion rxMsg msgPos = (recStatusByte rxMsg msgPos AND 0x40 \<noteq> 0)"

text \<open>The address: \<open><<\<close> works on 32-bit signed integers, so a first byte of
  \<open>0x80\<close> or more makes the shifted value, and the address, negative.\<close>

definition recDevAddr :: "byte list \<Rightarrow> nat \<Rightarrow> int" where
  "recDevAddr rxMsg msgPos =
     (let recordPos = msgPos + recordLenLen + busInfoLen in
      sint (push_bit 24 (ucast (rxMsg ! recordPos) :: 32 word))
        + int (unat (rxMsg ! (recordPos + 1))) * 65536
        + int (unat (rxMsg ! (recordPos + 2))) * 256
        + int (unat (rxMsg ! (recordPos + 3))))"

definition recDevTypeIdx :: "byte list \<Rightarrow> nat \<Rightarrow> nat" where
  "recDevTypeIdx rxMsg msgPos = getU16 rxMsg (msgPos + recordLenLen + busInfoLen + deviceAddrLen)"

definition recBusName :: "byte list \<Rightarrow> nat \<Rightarrow> string" where
  "recBusName rxMsg msgPos = intToString 10 (int (unat (recBusNum rxMsg msgPos)))"

definition recDevAddrHex :: "byte list \<Rightarrow> nat \<Rightarrow> string" where
  "recDevAddrHex rxMsg msgPos = formatDeviceAddrHex (recDevAddr rxMsg msgPos)"

definition recDeviceKey :: "byte list \<Rightarrow> nat \<Rightarrow> string" where
  "recDeviceKey rxMsg msgPos = getDeviceKey (recBusName rxMsg msgPos) (recDevAddrHex rxMsg msgPos)"

text \<open>
  The inner loop over the poll data of one record, on the device state object:
  \<open>endPos\<close> is \<open>pollDataStartPos + pollDataLen\<close> (below the start for a record
  shorter than its header). What \<open>pmag\<close> did to the timeline and the attributes stays
  when the loop breaks on its result.
\<close>

function attrLoop ::
  "attr_handler \<Rightarrow> byte list \<Rightarrow> nat \<Rightarrow> DeviceTypePollRespMetadata \<Rightarrow> int \<Rightarrow> nat \<Rightarrow> DeviceState \<Rightarrow>
   DeviceState" where
  "attrLoop pmag rxMsg cap pollRespMetadata endPos pollDataPos deviceState =
     (if int pollDataPos < endPos then
        if pollDataPos \<ge> length rxMsg then deviceState
        else
          let res = pmag rxMsg pollDataPos (deviceTimeline deviceState) pollRespMetadata
                      (deviceAttributes deviceState) cap;
              newMsgBufIdx = fst res;
              ds1 = deviceState\<lparr>deviceTimeline := fst (snd res),
                                deviceAttributes := snd (snd res)\<rparr>
          in if newMsgBufIdx < 0 then ds1
             else if newMsgBufIdx \<le> int pollDataPos then ds1
             else attrLoop pmag rxMsg cap pollRespMetadata endPos (nat newMsgBufIdx)
                    (ds1\<lparr>stateChanged := True\<rparr>)
      else deviceState)"
  by pat_completeness auto
termination
  by (relation "measure (\<lambda>(pmag, rxMsg, cap, r, endPos, pollDataPos, ds). nat (endPos - int pollDataPos))")
     auto

declare attrLoop.simps [simp del]

text \<open>Lines 338 to 381: the device state is looked up or created once the type info is
  there; \<open>False\<close> stands for the \<open>continue\<close> taken when it is not available.\<close>

definition resolveDeviceRecord ::
  "DeviceManager \<Rightarrow> int \<Rightarrow> string \<Rightarrow> string \<Rightarrow> string \<Rightarrow> nat \<Rightarrow> bool \<times> DeviceManager" where
  "resolveDeviceRecord mgr nowMs busNm devAddrHex deviceKey devTypeIdx =
     (if (case map_of (devicesState mgr) deviceKey of
            None \<Rightarrow> True
          | Some ds \<Rightarrow> deviceTypeInfo ds = None)
      then
        let (typeInfo, mgr1) = getDeviceTypeInfo mgr busNm (intToString 10 (int devTypeIdx)) nowMs
        in case typeInfo of
             None \<Rightarrow> (False, mgr1)
           | Some info \<Rightarrow>
               (True,
                case map_of (devicesState mgr1) deviceKey of
                  Some ds \<Rightarrow>
                    mgr1\<lparr>devicesState :=
                      AList.update deviceKey
                        (ds\<lparr>deviceTypeInfo := Some info,
                            deviceType := strOr (dti_name info),
                            busName := busNm,
                            deviceAddress := devAddrHex\<rparr>)
                        (devicesState mgr1)\<rparr>
                | None \<Rightarrow>
                    mgr1\<lparr>devicesState :=
                      AList.update deviceKey
                        \<lparr>deviceTypeInfo = Some info,
                         deviceTimeline = \<lparr>timestampsUs = [], lastReportTimestampUs = 0,
                                            reportTimestampOffsetUs = 0\<rparr>,
                         deviceAttributes = [],
                         deviceIsNew = True,
                         stateChanged = False,
                         onlineState = Online,
                         deviceAddress = devAddrHex,
                         deviceType = strOr (dti_name info),
                         busName = busNm\<rparr>
                        (devicesState mgr1)\<rparr>)
      else (True, mgr))"

text \<open>Lines 383 to 441: the online state, the poll data, the decoded-data event and
  the stats. The device state is there at this point; the first case is never taken.\<close>

definition processPollData ::
  "attr_handler \<Rightarrow> int \<Rightarrow> byte list \<Rightarrow> nat \<Rightarrow> nat \<Rightarrow> DeviceManager \<Rightarrow> DeviceManager" where
  "processPollData pmag nowMs rxMsg msgPos recordLen mgr =
     (let deviceKey = recDeviceKey rxMsg msgPos in
      case map_of (devicesState mgr) deviceKey of
        None \<Rightarrow> mgr
      | Some ds0 \<Rightarrow>
          let ds1 = ds0\<lparr>onlineState := (if recIsOnline rxMsg msgPos then Online else Offline)\<rparr>
          in case (case deviceTypeInfo ds1 of None \<Rightarrow> None | Some info \<Rightarrow> dti_resp info) of
               None \<Rightarrow> mgr\<lparr>devicesState := AList.update deviceKey ds1 (devicesState mgr)\<rparr>
             | Some pollRespMetadata \<Rightarrow>
                 let pollDataLen = int recordLen - int recordHeaderLen;
                     pollDataStartPos = msgPos + recordLenLen + recordHeaderLen;
                     attrLengthsBefore =
                       snapshotAttrLengths (deviceAttributes ds1) (Some pollRespMetadata);
                     timelineLenBefore = length (timestampsUs (deviceTimeline ds1));
                     ds2 = attrLoop pmag rxMsg (maxDatapointsToStore mgr) pollRespMetadata
                             (int pollDataStartPos + pollDataLen) pollDataStartPos ds1;
                     mgr1 = mgr\<lparr>devicesState := AList.update deviceKey ds2 (devicesState mgr)\<rparr>;
                     mgr2 = emitDecodedData mgr1 deviceKey (recBusName rxMsg msgPos)
                              (recDevAddrHex rxMsg msgPos) ds2 (Some pollRespMetadata)
                              attrLengthsBefore timelineLenBefore '''' None;
                     newSamples = int (length (timestampsUs (deviceTimeline ds2)))
                                    - int timelineLenBefore
                 in updateDeviceStats mgr2 deviceKey newSamples nowMs)"

text \<open>
  One record that passed the two length checks: the body of the \<open>while\<close> loop from
  line 302 on. \<open>Date.now()\<close> is read as the one value \<open>nowMs\<close> throughout a frame.
\<close>

definition processRecord ::
  "attr_handler \<Rightarrow> int \<Rightarrow> byte list \<Rightarrow> nat \<Rightarrow> nat \<Rightarrow> DeviceManager \<Rightarrow> DeviceManager" where
  "processRecord pmag nowMs rxMsg msgPos recordLen mgr =
     (let deviceKey = recDeviceKey rxMsg msgPos;
          mgr1 = mgr\<lparr>deviceLastUpdateTime :=
                   AList.update deviceKey nowMs (deviceLastUpdateTime mgr)\<rparr>
      in if recIsPendingDeletion rxMsg msgPos then removeDevice mgr1 deviceKey
         else
           case resolveDeviceRecord mgr1 nowMs (recBusName rxMsg msgPos)
                  (recDevAddrHex rxMsg msgPos) deviceKey (recDevTypeIdx rxMsg msgPos) of
             (False, mgr2) \<Rightarrow> mgr2
           | (True, mgr2) \<Rightarrow> processPollData pmag nowMs rxMsg msgPos recordLen mgr2)"

text \<open>
  The loop over the records, from \<open>msgPos\<close>: it ends at the end of the message, or
  returns early at a record with fewer bytes left than a length prefix and a header, or at
  a record whose length overruns the message. The result says which, and where.
\<close>

datatype loop_end = RecordsDone nat | TooShort nat | Overrun nat

function recordsLoop ::
  "attr_handler \<Rightarrow> int \<Rightarrow> byte list \<Rightarrow> nat \<Rightarrow> DeviceManager \<Rightarrow> loop_end \<times> DeviceManager" where
  "recordsLoop pmag nowMs rxMsg msgPos mgr =
     (if msgPos < length rxMsg then
        let remainingLen = length rxMsg - msgPos in
        if remainingLen < recordLenLen + recordHeaderLen then (TooShort msgPos, mgr)
        else
          let recordLen = getU16 rxMsg msgPos in
          if recordLen > remainingLen - recordLenLen then (Overrun msgPos, mgr)
          else recordsLoop pmag nowMs rxMsg (msgPos + recordLenLen + recordLen)
                 (processRecord pmag nowMs rxMsg msgPos recordLen mgr)
      else (RecordsDone msgPos, mgr))"
  by pat_completeness auto
termination
  by (relation "measure (\<lambda>(pmag, nowMs, rxMsg, msgPos, mgr). length rxMsg - msgPos)")
     (auto simp: recordLenLen_def)

declare recordsLoop.simps [simp del]

text \<open>The sweep of devices not updated for a while.\<close>

definition removeStaleDevices :: "int \<Rightarrow> DeviceManager \<Rightarrow> DeviceManager" where
  "removeStaleDevices nowTime mgr =
     (if removeDevicesFlag mgr then
        foldl (\<lambda>m (deviceKey, lastUpdateTime).
                 if nowTime - lastUpdateTime > removeDevicesTimeMs m
                 then m\<lparr>devicesState := AList.delete deviceKey (devicesState m),
                        deviceStats := AList.delete deviceKey (deviceStats m)\<rparr>
                 else m)
          mgr (deviceLastUpdateTime mgr)
      else mgr)"

text \<open>\<open>processStateCallback\<close>: per attribute, per device, over all devices.\<close>

definition attrStateCallback ::
  "nat list \<Rightarrow> nat list \<Rightarrow> string \<Rightarrow> DeviceAttributeState \<Rightarrow>
   DeviceAttributeState \<times> callback_event list" where
  "attrStateCallback attrCbs dataCbs deviceKey attrState =
     (let ev1 = (if newAttribute attrState
                 then map (\<lambda>cb. NewAttributeCalled cb deviceKey attrState) attrCbs else []);
          a1 = attrState\<lparr>newAttribute := False\<rparr>;
          ev2 = (if newData a1 then map (\<lambda>cb. NewDataCalled cb deviceKey a1) dataCbs else []);
          a2 = a1\<lparr>newData := False\<rparr>
      in (a2, ev1 @ ev2))"

definition deviceStateCallback ::
  "DeviceManager \<Rightarrow> string \<Rightarrow> DeviceState \<Rightarrow> DeviceState \<times> callback_event list" where
  "deviceStateCallback mgr deviceKey deviceState =
     (let ev0 = (if deviceIsNew deviceState
                 then map (\<lambda>cb. NewDeviceCalled cb deviceKey deviceState) (newDeviceCallbacks mgr)
                 else []);
          ds1 = deviceState\<lparr>deviceIsNew := False\<rparr>;
          res = map (\<lambda>(nm, a). (nm, attrStateCallback (newDeviceAttributeCallbacks mgr)
                                      (newAttributeDataCallbacks mgr) deviceKey a))
                  (deviceAttributes ds1)
      in (ds1\<lparr>deviceAttributes := map (\<lambda>(nm, r). (nm, fst r)) res\<rparr>,
          ev0 @ concat (map (\<lambda>(nm, r). snd r) res)))"

definition processStateCallback :: "DeviceManager \<Rightarrow> DeviceManager" where
  "processStateCallback mgr =
     (let res = map (\<lambda>(deviceKey, ds). (deviceKey, deviceStateCallback mgr deviceKey ds))
                  (devicesState mgr)
      in mgr\<lparr>devicesState := map (\<lambda>(deviceKey, r). (deviceKey, fst r)) res,
             callbackLog := callbackLog mgr @ concat (map (\<lambda>(deviceKey, r). snd r) res)\<rparr>)"

text \<open>
  \<open>handleClientMsgBinary\<close>. The source returns nothing; the model gives, beside the
  manager, how the call ended: \<open>None\<close> when the envelope check dropped the frame,
  otherwise how and where the loop over the records ended. Only a loop that reached the
  end of the message is followed by the sweep and the state callbacks.
\<close>

definition handleClientMsgBinary ::
  "attr_handler \<Rightarrow> int \<Rightarrow> byte list \<Rightarrow> DeviceManager \<Rightarrow> loop_end option \<times> DeviceManager" where
  "handleClientMsgBinary pmag nowMs rxMsg mgr =
     (let mgr0 = mgr\<lparr>debugMsgIndex := debugMsgIndex mgr + 1\<rparr> in
      case checkEnvelope mgr0 rxMsg of
        BadMagic \<Rightarrow> (None, mgr0)
      | OtherTopic \<Rightarrow> (None, mgr0)
      | RecordsFrom msgPos \<Rightarrow>
          (case recordsLoop pmag nowMs rxMsg msgPos mgr0 of
             (RecordsDone p, mgr1) \<Rightarrow>
               (Some (RecordsDone p), processStateCallback (removeStaleDevices nowMs mgr1))
           | (e, mgr1) \<Rightarrow> (Some e, mgr1)))"



text \<open>The bound of the claim: every attribute of every device holds at most
  \<open>maxDatapointsToStore\<close> values.\<close>

definition attrsBounded :: "nat \<Rightarrow> DeviceAttributesState \<Rightarrow> bool" where
  "attrsBounded cap attrs = (\<forall>(nm, a) \<in> set attrs. length (values' a) \<le> cap)"


section \<open>Example data\<close>

text \<open>
  Concrete values for the worked examples below: a device type with one attribute, system
  utilities whose message handler answers every request with that type, a decoder that
  reads samples of seven bytes (a 16-bit timestamp, then the value in the third byte), the
  example message of the comment at the head of \<open>handleClientMsgBinary\<close>, a frame with
  one record that marks device \<open>1_76a\<close> for deletion, and a manager that knows this
  device, with two device-removed callbacks registered.
\<close>

definition exampleTypeInfo :: DeviceTypeInfo where
  "exampleTypeInfo =
     \<lparr>dti_name = Some ''LSM6DS'',
      dti_resp = Some \<lparr>resp_a = [\<lparr>attr_n = ''ax'', attr_other = []\<rparr>], resp_other = []\<rparr>,
      dti_other = []\<rparr>"

definition exampleUtils :: RaftSystemUtils where
  "exampleUtils =
     \<lparr>getPublishTopicName = (\<lambda>i. if i = 1 then Some ''devbin'' else None),
      getMsgHandler = Some (\<lambda>cmd. RpcReply ''ok'' (Some exampleTypeInfo))\<rparr>"

definition exampleDecoder :: sample_decoder where
  "exampleDecoder msgBuffer idx timeline pollRespMetadata =
     (if idx + 7 \<le> length msgBuffer
      then Some (idx + 7, int (getU16 msgBuffer idx), (\<lambda>nm. byteNum (msgBuffer ! (idx + 2))))
      else None)"


definition examplePendingFrame :: "byte list" where
  "examplePendingFrame =
     [0x00, 0x80, 0xDB, 0x01,
      0x00, 0x07, 0xC1, 0x00, 0x00, 0x07, 0x6a, 0x00, 0x0b]"

definition exampleAttr :: DeviceAttributeState where
  "exampleAttr =
     \<lparr>attrName = ''ax'', newAttribute = False, newData = False, numNewValues = 0,
      values' = [0, 7], units = ''g'', attrRange = [], format = ''%.2f'',
      visibleSeries = True, visibleForm = True\<rparr>"

definition exampleDevice :: DeviceState where
  "exampleDevice =
     \<lparr>deviceTypeInfo = Some exampleTypeInfo,
      deviceTimeline = \<lparr>timestampsUs = [49137, 65402], lastReportTimestampUs = 0,
                         reportTimestampOffsetUs = 0\<rparr>,
      deviceAttributes = [(''ax'', exampleAttr)],
      deviceIsNew = False,
      stateChanged = True,
      onlineState = Online,
      deviceAddress = ''76a'',
      deviceType = ''LSM6DS'',
      busName = ''1''\<rparr>"

definition exampleManager :: DeviceManager where
  "exampleManager =
     newDeviceManager
       \<lparr>devicesState := [(''1_76a'', exampleDevice)],
        deviceLastUpdateTime := [(''1_76a'', 1000)],
        systemUtils := Some exampleUtils,
        deviceRemovedCallbacks := [7, 8],
        deviceStats :=
          [(''1_76a'',
            \<lparr>totalSamples = 2, windowMs = 5000, windowSamples = 2, sampleRateHz = 2000,
             lastSampleTimeMs = Some 1000, lastUpdateTimeMs = Some 1000,
             windowEvents = [\<lparr>timeMs = 1000, samples = 2\<rparr>]\<rparr>)],
        cachedDeviceTypeRecs := [(''11'', Some exampleTypeInfo)],
        cachedDeviceTypePreviousAttemptTimes := [(''11'', 1000)]\<rparr>"

subsection \<open>The frame as the wire format reads it\<close>

text \<open>
  Two readings of "every record's length fits", over the records as they lie back to
  back from \<open>pos\<close>, each a 2-byte length and that many body bytes. \<open>recordLensFit\<close>
  is the claim's wording: every record has its length prefix, and the length does not
  exceed the bytes that remain after the prefix. \<open>recordsFit\<close> asks in addition for
  what the first check of the loop asks: a record starts with at least a length prefix
  and a header, nine bytes, left. \<open>recordsValid\<close> is the format of section 4.2, where a
  body is at least the seven bytes of the header.
\<close>

function recordLensFit :: "byte list \<Rightarrow> nat \<Rightarrow> bool" where
  "recordLensFit rxMsg pos =
     (if pos < length rxMsg then
        pos + recordLenLen \<le> length rxMsg
        \<and> getU16 rxMsg pos \<le> length rxMsg - pos - recordLenLen
        \<and> recordLensFit rxMsg (pos + recordLenLen + getU16 rxMsg pos)
      else True)"
  by pat_completeness auto
termination
  by (relation "measure (\<lambda>(rxMsg, pos). length rxMsg - pos)") (auto simp: recordLenLen_def)

declare recordLensFit.simps [simp del]

function recordsFit :: "byte list \<Rightarrow> nat \<Rightarrow> bool" where
  "recordsFit rxMsg pos =
     (if pos < length rxMsg then
        recordLenLen + recordHeaderLen \<le> length rxMsg - pos
        \<and> getU16 rxMsg pos \<le> length rxMsg - pos - recordLenLen
        \<and> recordsFit rxMsg (pos + recordLenLen + getU16 rxMsg pos)
      else True)"
  by pat_completeness auto
termination
  by (relation "measure (\<lambda>(rxMsg, pos). length rxMsg - pos)") (auto simp: recordLenLen_def)

declare recordsFit.simps [simp del]

function recordsValid :: "byte list \<Rightarrow> nat \<Rightarrow> bool" where
  "recordsValid rxMsg pos =
     (if pos < length rxMsg then
        pos + recordLenLen \<le> length rxMsg
        \<and> recordHeaderLen \<le> getU16 rxMsg pos
        \<and> getU16 rxMsg pos \<le> length rxMsg - pos - recordLenLen
        \<and> recordsValid rxMsg (pos + recordLenLen + getU16 rxMsg pos)
      else True)"
  by pat_completeness auto
termination
  by (relation "measure (\<lambda>(rxMsg, pos). length rxMsg - pos)") (auto simp: recordLenLen_def)

declare recordsValid.simps [simp del]

text \<open>
  The states the loop over the records passes through: from a position and a manager,
  by records that pass both length checks, to a position and the manager as those records
  left it.
\<close>

inductive recordsReach ::
  "attr_handler \<Rightarrow> int \<Rightarrow> byte list \<Rightarrow> nat \<times> DeviceManager \<Rightarrow> nat \<times> DeviceManager \<Rightarrow> bool"
  for pmag :: attr_handler and nowMs :: int and rxMsg :: "byte list" where
    reach_start: "recordsReach pmag nowMs rxMsg s s"
  | reach_record:
      "recordsReach pmag nowMs rxMsg s (msgPos, mgr) \<Longrightarrow>
       msgPos < length rxMsg \<Longrightarrow>
       recordLenLen + recordHeaderLen \<le> length rxMsg - msgPos \<Longrightarrow>
       getU16 rxMsg msgPos \<le> length rxMsg - msgPos - recordLenLen \<Longrightarrow>
       recordsReach pmag nowMs rxMsg s
         (msgPos + recordLenLen + getU16 rxMsg msgPos,
          processRecord pmag nowMs rxMsg msgPos (getU16 rxMsg msgPos) mgr)"

definition truncatedRecordFrame :: "byte list" where
  "truncatedRecordFrame = [0x00, 0x80, 0xDB, 0xFF, 0x00, 0x03, 0x81, 0x00, 0x00]"

definition overrunFrame :: "byte list" where
  "overrunFrame = examplePendingFrame @ [0x00, 0x20, 0x81, 0x00, 0x00, 0x00, 0x01, 0x00, 0x0b, 0x01]"

subsection \<open>Concurrent calls of getDeviceTypeInfo\<close>

text \<open>
  Calls that are concurrent: made one after the other, each with its call number, bus
  name and time, for one device type, before the request settles. The outcomes are
  collected in order.
\<close>

fun callAll ::
  "DeviceManager \<Rightarrow> string \<Rightarrow> (nat \<times> string \<times> int) list \<Rightarrow> call_outcome list \<times> DeviceManager" where
  "callAll mgr devType [] = ([], mgr)"
| "callAll mgr devType ((callId, busNm, nowMs) # calls) =
     (let (out, mgr1) = getDeviceTypeInfo_call mgr callId busNm devType nowMs;
          (outs, mgr2) = callAll mgr1 devType calls
      in (out # outs, mgr2))"

text \<open>The value a settled request gives: the \<open>devinfo\<close> of an "ok" reply, otherwise
  \<open>undefined\<close>.\<close>

definition replyResult :: "rpc_result \<Rightarrow> DeviceTypeInfo option" where
  "replyResult reply =
     (case reply of
        RpcReply rslt devinfo \<Rightarrow> if rslt = ''ok'' then devinfo else None
      | _ \<Rightarrow> None)"

text \<open>The value a settled request gives on a manager: \<open>undefined\<close> when no message
  handler is available (no request is sent then), otherwise the value of the reply.\<close>

definition settledResult :: "DeviceManager \<Rightarrow> rpc_result \<Rightarrow> DeviceTypeInfo option" where
  "settledResult mgr reply =
     (case msgHandlerOf mgr of
        None \<Rightarrow> None
      | Some h \<Rightarrow> replyResult reply)"

text \<open>The commands a started request hands to the message handler: one when there is a
  handler, none otherwise.\<close>

definition requestsSent :: "DeviceManager \<Rightarrow> string \<Rightarrow> string \<Rightarrow> string list" where
  "requestsSent mgr busNm devType =
     (case msgHandlerOf mgr of
        None \<Rightarrow> []
      | Some h \<Rightarrow> [typeInfoCmd busNm devType])"

text \<open>A manager set up with the example utilities.\<close>

definition readyManager :: DeviceManager where
  "readyManager = setupManager newDeviceManager exampleUtils"

text \<open>The same manager after its request for type "12" at time 0 has failed.\<close>

definition failedOnceManager :: DeviceManager where
  "failedOnceManager =
     snd (snd (getDeviceTypeInfo_settle
       (snd (getDeviceTypeInfo_call readyManager 0 ''bus0'' ''12'' 0)) ''12'' RpcThrows))"

text \<open>Five calls for one type on \<open>bus0\<close>, all at time \<open>nowMs\<close>.\<close>

definition fiveCalls :: "int \<Rightarrow> (nat \<times> string \<times> int) list" where
  "fiveCalls nowMs = map (\<lambda>callId. (callId, ''bus0'', nowMs)) [1, 2, 3, 4, 5]"
chapter \<open>The claims\<close>

section \<open>Frame classification (C6)\<close>

lemma high_nibble_D_not_brace:
  "(b :: byte) AND 0xF0 = 0xD0 \<Longrightarrow> b \<noteq> 0x7B"
  by auto

lemma magic_byte_version:
  assumes "0xDB \<le> (b :: byte)" and "b \<le> 0xDF"
  shows "byteNum b - 0xDA \<in> {1, 2, 3, 4, 5}"
proof -
  from assms have "219 \<le> unat b" and "unat b \<le> 223"
    by (simp_all add: word_le_nat_alt)
  then have "unat b \<in> {219, 220, 221, 222, 223}"
    by auto
  moreover have "b = of_nat (unat b)"
    by simp
  ultimately have "b \<in> {219, 220, 221, 222, 223}"
    by (metis insert_iff of_nat_numeral empty_iff)
  then show ?thesis
    by (auto simp: byteNum_def)
qed

text \<open>
  C6. A payload whose byte at index 2 has high nibble \<open>0xD\<close>: for a byte in
  \<open>0xDB\<close>..\<open>0xDF\<close>, \<open>inspectPublishFrame\<close> returns a binary frame with envelope,
  version the byte minus \<open>0xDA\<close> (one of 1 to 5), the following byte as topic index
  (undefined when the payload ends at the magic byte), a topic name looked up only for an
  index other than \<open>0xFF\<close> and only with a lookup function, and payload offset 4; for
  any other byte it returns a binary frame flagged as having an envelope, with no version,
  topic or payload offset.
\<close>

theorem inspectPublishFrame_envelope:
  assumes "2 < length payload" and "payload ! 2 AND 0xF0 = 0xD0"
  shows "inspectPublishFrame parseJson payload topicLookup =
    (if 0xDB \<le> payload ! 2 \<and> payload ! 2 \<le> 0xDF then
       \<lparr>frameType = FrameBinary,
        topicIndex = (if 3 < length payload then Some (byteNum (payload ! 3)) else None),
        topicName =
          (if 3 < length payload \<and> payload ! 3 \<noteq> 0xFF
           then (case topicLookup of Some f \<Rightarrow> f (byteNum (payload ! 3)) | None \<Rightarrow> None)
           else None),
        version = Some (byteNum (payload ! 2) - 0xDA),
        jsonString = None,
        binaryHasEnvelope = Some True,
        binaryPayloadOffset = Some 4\<rparr>
     else
       \<lparr>frameType = FrameBinary, topicIndex = None, topicName = None, version = None,
        jsonString = None, binaryHasEnvelope = Some True, binaryPayloadOffset = None\<rparr>)
    \<and> (0xDB \<le> payload ! 2 \<and> payload ! 2 \<le> 0xDF \<longrightarrow>
           byteNum (payload ! 2) - 0xDA \<in> {1, 2, 3, 4, 5})"
proof (rule conjI)
  have nj: "payload ! 2 \<noteq> 0x7B"
    using assms(2) by (rule high_nibble_D_not_brace)
  show "inspectPublishFrame parseJson payload topicLookup =
    (if 0xDB \<le> payload ! 2 \<and> payload ! 2 \<le> 0xDF then
       \<lparr>frameType = FrameBinary,
        topicIndex = (if 3 < length payload then Some (byteNum (payload ! 3)) else None),
        topicName =
          (if 3 < length payload \<and> payload ! 3 \<noteq> 0xFF
           then (case topicLookup of Some f \<Rightarrow> f (byteNum (payload ! 3)) | None \<Rightarrow> None)
           else None),
        version = Some (byteNum (payload ! 2) - 0xDA),
        jsonString = None,
        binaryHasEnvelope = Some True,
        binaryPayloadOffset = Some 4\<rparr>
     else
       \<lparr>frameType = FrameBinary, topicIndex = None, topicName = None, version = None,
        jsonString = None, binaryHasEnvelope = Some True, binaryPayloadOffset = None\<rparr>)"
    using assms nj
    by (auto simp: inspectPublishFrame_def metaOf_def RAFT_PUBLISH_PREFIX_LEN_def
        DEVBIN_MAGIC_MIN_def DEVBIN_MAGIC_MAX_def DEVBIN_VERSION_BASE_def Let_def not_le not_less
        split: option.splits)
  show "0xDB \<le> payload ! 2 \<and> payload ! 2 \<le> 0xDF \<longrightarrow>
          byteNum (payload ! 2) - 0xDA \<in> {1, 2, 3, 4, 5}"
    using magic_byte_version by blast
qed

text \<open>The theorem at the frame \<open>00 80 DB 01 00\<close> with a lookup that knows topic 1, and
  at the frame \<open>00 80 D5 01\<close>, whose magic byte is outside the versions.\<close>

theorem inspectPublishFrame_envelope_witness:
  "inspectPublishFrame (\<lambda>bs. None) [0x00, 0x80, 0xDB, 0x01, 0x00]
       (Some (\<lambda>i. if i = 1 then Some ''devbin'' else None)) =
     \<lparr>frameType = FrameBinary, topicIndex = Some 1, topicName = Some ''devbin'',
      version = Some 1, jsonString = None, binaryHasEnvelope = Some True,
      binaryPayloadOffset = Some 4\<rparr>
   \<and> inspectPublishFrame (\<lambda>bs. None) [0x00, 0x80, 0xD5, 0x01] None =
     \<lparr>frameType = FrameBinary, topicIndex = None, topicName = None, version = None,
      jsonString = None, binaryHasEnvelope = Some True, binaryPayloadOffset = None\<rparr>"
proof -
  have a: "2 < length [0x00, 0x80, 0xDB, 0x01, 0x00 :: byte]"
    and b: "[0x00, 0x80, 0xDB, 0x01, 0x00 :: byte] ! 2 AND 0xF0 = 0xD0"
    by simp_all
  have c: "2 < length [0x00, 0x80, 0xD5, 0x01 :: byte]"
    and d: "[0x00, 0x80, 0xD5, 0x01 :: byte] ! 2 AND 0xF0 = 0xD0"
    by simp_all
  show ?thesis
    using inspectPublishFrame_envelope [OF a b, of "\<lambda>bs. None"
        "Some (\<lambda>i. if i = 1 then Some ''devbin'' else None)"]
      inspectPublishFrame_envelope [OF c d, of "\<lambda>bs. None" None]
    by (simp add: byteNum_def)
qed

section \<open>The loop over the records: general facts\<close>

lemma recordsLoop_step:
  assumes "msgPos < length rxMsg"
    and "recordLenLen + recordHeaderLen \<le> length rxMsg - msgPos"
    and "getU16 rxMsg msgPos \<le> length rxMsg - msgPos - recordLenLen"
  shows "recordsLoop pmag nowMs rxMsg msgPos mgr =
     recordsLoop pmag nowMs rxMsg (msgPos + recordLenLen + getU16 rxMsg msgPos)
       (processRecord pmag nowMs rxMsg msgPos (getU16 rxMsg msgPos) mgr)"
  using assms by (subst recordsLoop.simps) (simp add: Let_def)

lemma recordsLoop_end:
  "\<not> msgPos < length rxMsg \<Longrightarrow>
   recordsLoop pmag nowMs rxMsg msgPos mgr = (RecordsDone msgPos, mgr)"
  by (subst recordsLoop.simps) simp

lemma recordsLoop_stops:
  assumes "msgPos + recordLenLen \<le> length rxMsg"
    and "length rxMsg - msgPos - recordLenLen < getU16 rxMsg msgPos"
  shows "recordsLoop pmag nowMs rxMsg msgPos mgr =
     ((if length rxMsg - msgPos < recordLenLen + recordHeaderLen
       then TooShort msgPos else Overrun msgPos), mgr)"
  using assms by (subst recordsLoop.simps) (auto simp: Let_def recordLenLen_def)

lemma recordsReach_loop:
  "recordsReach pmag nowMs rxMsg s t \<Longrightarrow>
   recordsLoop pmag nowMs rxMsg (fst s) (snd s) = recordsLoop pmag nowMs rxMsg (fst t) (snd t)"
proof (induction rule: recordsReach.induct)
  case (reach_start s)
  show ?case by simp
next
  case (reach_record s msgPos mgr)
  then show ?case
    by (simp add: recordsLoop_step)
qed

lemma checkEnvelope_debugMsgIndex:
  "checkEnvelope (mgr\<lparr>debugMsgIndex := i\<rparr>) rxMsg = checkEnvelope mgr rxMsg"
  by (simp add: checkEnvelope_def Let_def)

lemma checkEnvelope_pos:
  "checkEnvelope mgr rxMsg = RecordsFrom p \<Longrightarrow>
     p = msgTypeLen \<or> (p = msgTypeLen + devbinEnvelopeLen \<and> p \<le> length rxMsg)"
  by (auto simp: checkEnvelope_def Let_def split: if_splits)

lemma processRecord_pending:
  "recIsPendingDeletion rxMsg msgPos \<Longrightarrow>
   processRecord pmag nowMs rxMsg msgPos recordLen mgr =
     removeDevice
       (mgr\<lparr>deviceLastUpdateTime :=
          AList.update (recDeviceKey rxMsg msgPos) nowMs (deviceLastUpdateTime mgr)\<rparr>)
       (recDeviceKey rxMsg msgPos)"
  by (simp add: processRecord_def Let_def)

text \<open>A record that passed the first check of the loop has its length prefix and its
  header inside the message: no read of the header is out of range.\<close>

lemma record_header_in_range:
  assumes "msgPos < length rxMsg"
    and "recordLenLen + recordHeaderLen \<le> length rxMsg - msgPos"
  shows "msgPos + recordLenLen + busInfoLen + deviceAddrLen + devTypeIdxLen \<le> length rxMsg"
  using assms by (simp add: recordHeaderLen_def)

lemma removeDevice_devicesState:
  "devicesState (removeDevice mgr k) = AList.delete k (devicesState mgr)"
  by (simp add: removeDevice_def Let_def delete_update_same split: option.splits)

lemma removeDevice_deviceStats:
  "deviceStats (removeDevice mgr k) = AList.delete k (deviceStats mgr)"
  by (simp add: removeDevice_def Let_def split: option.splits)

lemma removeDevice_lastUpdate:
  "deviceLastUpdateTime (removeDevice mgr k) = AList.delete k (deviceLastUpdateTime mgr)"
  by (simp add: removeDevice_def Let_def split: option.splits)

lemma removeDevice_callbackLog:
  "map_of (devicesState mgr) k = Some ds \<Longrightarrow>
   callbackLog (removeDevice mgr k) = callbackLog mgr @
     map (\<lambda>cb. DeviceRemovedCalled cb k (ds\<lparr>onlineState := PendingDeletion\<rparr>))
       (deviceRemovedCallbacks mgr)"
  by (simp add: removeDevice_def Let_def)

section \<open>Sliding-window sample rate (C3)\<close>

lemma foldl_samples_sum:
  "foldl (\<lambda>sum entry. sum + samples entry) a evs = a + sum_list (map samples evs)"
  by (induction evs arbitrary: a) simp_all

lemma updateStatsObject_events:
  "windowEvents (updateStatsObject stats newSamples nowMs) =
     dropWhile (\<lambda>e. timeMs e < nowMs - windowMs stats)
       (windowEvents stats @
          (if newSamples > 0 then [\<lparr>timeMs = nowMs, samples = newSamples\<rparr>] else []))"
  by (simp add: updateStatsObject_def Let_def)

lemma updateStatsObject_windowSamples:
  "windowSamples (updateStatsObject stats newSamples nowMs) =
     sum_list (map samples (windowEvents (updateStatsObject stats newSamples nowMs)))"
  by (simp add: updateStatsObject_def Let_def foldl_samples_sum)

lemma updateStatsObject_rate:
  "sampleRateHz (updateStatsObject stats newSamples nowMs) =
     (if windowEvents (updateStatsObject stats newSamples nowMs) = [] then 0
      else of_int (windowSamples (updateStatsObject stats newSamples nowMs) * 1000)
             / of_int (max 1 (nowMs
                 - timeMs (hd (windowEvents (updateStatsObject stats newSamples nowMs))))))"
  by (auto simp: updateStatsObject_def Let_def foldl_samples_sum)

lemma updateDeviceStats_lookup:
  "map_of (deviceStats (updateDeviceStats mgr deviceKey newSamples nowMs)) deviceKey =
     Some (updateStatsObject
             (case map_of (deviceStats mgr) deviceKey of
                None \<Rightarrow> createEmptyStats mgr
              | Some s \<Rightarrow> s)
             newSamples nowMs)"
  by (simp add: updateDeviceStats_def getOrCreateDeviceStats_def update_conv'
      split: option.splits)

lemma updateDeviceStats_other:
  "k \<noteq> deviceKey \<Longrightarrow>
   map_of (deviceStats (updateDeviceStats mgr deviceKey newSamples nowMs)) k =
     map_of (deviceStats mgr) k"
  by (simp add: updateDeviceStats_def getOrCreateDeviceStats_def update_conv'
      split: option.splits)

lemma window_demo_400:
  "map_of (deviceStats
       (updateDeviceStats
          (updateDeviceStats (newDeviceManager\<lparr>statsWindowMs := 500\<rparr>) k 10 0) k 10 400)) k =
     Some \<lparr>totalSamples = 20, windowMs = 500, windowSamples = 20, sampleRateHz = 50,
           lastSampleTimeMs = Some 400, lastUpdateTimeMs = Some 400,
           windowEvents = [\<lparr>timeMs = 0, samples = 10\<rparr>, \<lparr>timeMs = 400, samples = 10\<rparr>]\<rparr>"
  by (simp add: updateDeviceStats_lookup updateStatsObject_def newDeviceManager_def
      createEmptyStats_def Let_def)

lemma window_demo_expired:
  assumes "900 < t"
  shows "map_of (deviceStats
       (updateDeviceStats
          (updateDeviceStats
             (updateDeviceStats (newDeviceManager\<lparr>statsWindowMs := 500\<rparr>) k 10 0) k 10 400)
          k 0 t)) k =
     Some \<lparr>totalSamples = 20, windowMs = 500, windowSamples = 0, sampleRateHz = 0,
           lastSampleTimeMs = Some 400, lastUpdateTimeMs = Some t, windowEvents = []\<rparr>"
proof -
  have "map_of (deviceStats
       (updateDeviceStats
          (updateDeviceStats
             (updateDeviceStats (newDeviceManager\<lparr>statsWindowMs := 500\<rparr>) k 10 0) k 10 400)
          k 0 t)) k =
     Some (updateStatsObject
       \<lparr>totalSamples = 20, windowMs = 500, windowSamples = 20, sampleRateHz = 50,
        lastSampleTimeMs = Some 400, lastUpdateTimeMs = Some 400,
        windowEvents = [\<lparr>timeMs = 0, samples = 10\<rparr>, \<lparr>timeMs = 400, samples = 10\<rparr>]\<rparr> 0 t)"
    by (subst updateDeviceStats_lookup) (simp add: window_demo_400)
  with assms show ?thesis
    by (simp add: updateStatsObject_def Let_def)
qed

text \<open>
  C3. For every device, after \<open>updateDeviceStats\<close> the event log is the old log, with
  the new batch appended when it has samples, minus the head entries older than the
  window; \<open>windowSamples\<close> is the sum over the log that remains; the rate is
  \<open>windowSamples * 1000 / max(1, now - oldest remaining event time)\<close>, and both are 0
  when nothing remains. With a window of 500 ms in place of the default 5000 ms, 10
  samples at 0 ms and 10 samples at 400 ms give \<open>windowSamples = 20\<close> and rate 50 at
  400 ms, and an update with no samples at any time after 900 ms (more than 500 ms after
  the last batch) gives \<open>windowSamples = 0\<close> and rate 0. Rates are exact quotients.
\<close>

theorem updateDeviceStats_sample_rate:
  "(let old = (case map_of (deviceStats mgr) deviceKey of
                 None \<Rightarrow> createEmptyStats mgr
               | Some s \<Rightarrow> s);
        added = (if newSamples > 0 then [\<lparr>timeMs = nowMs, samples = newSamples\<rparr>] else [])
    in \<exists>stats.
         map_of (deviceStats (updateDeviceStats mgr deviceKey newSamples nowMs)) deviceKey
           = Some stats
         \<and> windowEvents stats =
             dropWhile (\<lambda>e. timeMs e < nowMs - windowMs old) (windowEvents old @ added)
         \<and> windowSamples stats = sum_list (map samples (windowEvents stats))
         \<and> sampleRateHz stats =
             (if windowEvents stats = [] then 0
              else of_int (windowSamples stats * 1000)
                     / of_int (max 1 (nowMs - timeMs (hd (windowEvents stats)))))
         \<and> (windowEvents stats = [] \<longrightarrow> windowSamples stats = 0 \<and> sampleRateHz stats = 0))
   \<and> (let m400 = updateDeviceStats
                    (updateDeviceStats (newDeviceManager\<lparr>statsWindowMs := 500\<rparr>) k 10 0)
                    k 10 400
       in map_option windowSamples (map_of (deviceStats m400) k) = Some 20
          \<and> map_option sampleRateHz (map_of (deviceStats m400) k) = Some 50
          \<and> (\<forall>t. 900 < t \<longrightarrow>
                map_option windowSamples (map_of (deviceStats (updateDeviceStats m400 k 0 t)) k)
                  = Some 0
                \<and> map_option sampleRateHz (map_of (deviceStats (updateDeviceStats m400 k 0 t)) k)
                  = Some 0))"
proof (rule conjI)
  show "let old = (case map_of (deviceStats mgr) deviceKey of
                 None \<Rightarrow> createEmptyStats mgr
               | Some s \<Rightarrow> s);
        added = (if newSamples > 0 then [\<lparr>timeMs = nowMs, samples = newSamples\<rparr>] else [])
    in \<exists>stats.
         map_of (deviceStats (updateDeviceStats mgr deviceKey newSamples nowMs)) deviceKey
           = Some stats
         \<and> windowEvents stats =
             dropWhile (\<lambda>e. timeMs e < nowMs - windowMs old) (windowEvents old @ added)
         \<and> windowSamples stats = sum_list (map samples (windowEvents stats))
         \<and> sampleRateHz stats =
             (if windowEvents stats = [] then 0
              else of_int (windowSamples stats * 1000)
                     / of_int (max 1 (nowMs - timeMs (hd (windowEvents stats)))))
         \<and> (windowEvents stats = [] \<longrightarrow> windowSamples stats = 0 \<and> sampleRateHz stats = 0)"
  proof -
    define old where "old = (case map_of (deviceStats mgr) deviceKey of
                 None \<Rightarrow> createEmptyStats mgr
               | Some s \<Rightarrow> s)"
    define stats where "stats = updateStatsObject old newSamples nowMs"
    have look: "map_of (deviceStats (updateDeviceStats mgr deviceKey newSamples nowMs)) deviceKey
        = Some stats"
      unfolding stats_def old_def by (rule updateDeviceStats_lookup)
    have ev: "windowEvents stats =
        dropWhile (\<lambda>e. timeMs e < nowMs - windowMs old)
          (windowEvents old @
             (if newSamples > 0 then [\<lparr>timeMs = nowMs, samples = newSamples\<rparr>] else []))"
      unfolding stats_def by (rule updateStatsObject_events)
    have ws: "windowSamples stats = sum_list (map samples (windowEvents stats))"
      unfolding stats_def by (rule updateStatsObject_windowSamples)
    have rate: "sampleRateHz stats =
        (if windowEvents stats = [] then 0
         else of_int (windowSamples stats * 1000)
                / of_int (max 1 (nowMs - timeMs (hd (windowEvents stats)))))"
      unfolding stats_def by (rule updateStatsObject_rate)
    have empty: "windowEvents stats = [] \<longrightarrow> windowSamples stats = 0 \<and> sampleRateHz stats = 0"
      using ws rate by simp
    show ?thesis
      unfolding Let_def old_def [symmetric]
      using look ev ws rate empty by blast
  qed
next
  show "let m400 = updateDeviceStats
                    (updateDeviceStats (newDeviceManager\<lparr>statsWindowMs := 500\<rparr>) k 10 0)
                    k 10 400
       in map_option windowSamples (map_of (deviceStats m400) k) = Some 20
          \<and> map_option sampleRateHz (map_of (deviceStats m400) k) = Some 50
          \<and> (\<forall>t. 900 < t \<longrightarrow>
                map_option windowSamples (map_of (deviceStats (updateDeviceStats m400 k 0 t)) k)
                  = Some 0
                \<and> map_option sampleRateHz (map_of (deviceStats (updateDeviceStats m400 k 0 t)) k)
                  = Some 0)"
    by (simp add: Let_def window_demo_400 window_demo_expired)
qed

text \<open>The theorem at a fresh manager, for device \<open>0_a1\<close>, with the idle update at
  901 ms.\<close>

theorem updateDeviceStats_sample_rate_witness:
  "map_option windowSamples
     (map_of (deviceStats
        (updateDeviceStats
           (updateDeviceStats
              (updateDeviceStats (newDeviceManager\<lparr>statsWindowMs := 500\<rparr>) ''0_a1'' 10 0)
              ''0_a1'' 10 400)
           ''0_a1'' 0 901)) ''0_a1'') = Some 0
   \<and> map_option sampleRateHz
     (map_of (deviceStats
        (updateDeviceStats
           (updateDeviceStats
              (updateDeviceStats (newDeviceManager\<lparr>statsWindowMs := 500\<rparr>) ''0_a1'' 10 0)
              ''0_a1'' 10 400)
           ''0_a1'' 0 901)) ''0_a1'') = Some 0
   \<and> map_option sampleRateHz
     (map_of (deviceStats
        (updateDeviceStats
           (updateDeviceStats (newDeviceManager\<lparr>statsWindowMs := 500\<rparr>) ''0_a1'' 10 0)
           ''0_a1'' 10 400)) ''0_a1'') = Some 50"
proof -
  have "(900 :: int) < 901"
    by simp
  with updateDeviceStats_sample_rate [of newDeviceManager "''0_a1''" 10 0 "''0_a1''"]
  show ?thesis
    unfolding Let_def by blast
qed

section \<open>Sending actions (C9, C10)\<close>

lemma sendAction_msgHandler:
  "msgHandlerOf (snd (sendAction structPack mgr deviceKey action dat)) = msgHandlerOf mgr"
  by (simp add: sendAction_def msgHandlerOf_def Let_def split: option.splits rpc_result.splits)

lemma sendAction_rpcLog:
  "msgHandlerOf mgr = Some h \<Longrightarrow>
   rpcLog (snd (sendAction structPack mgr deviceKey action dat)) =
     rpcLog mgr @ [actionCmd structPack deviceKey action dat]"
  by (simp add: sendAction_def Let_def split: rpc_result.splits)

lemma sendAction_ok:
  "msgHandlerOf mgr = Some h \<Longrightarrow> h (actionCmd structPack deviceKey action dat) = RpcReply ''ok'' d \<Longrightarrow>
   fst (sendAction structPack mgr deviceKey action dat) = True"
  by (simp add: sendAction_def Let_def)

text \<open>
  C9, as stated, fails: with two values to write, \<open>sendAction\<close> packs them as given.
  For an action with \<open>sub = 1\<close> and \<open>mul = 2\<close> and the values 3 and 4, the list handed
  to \<open>structPack\<close> is \<open>[3, 4]\<close>, not the converted \<open>[4, 6]\<close>.
\<close>

theorem sendAction_conversion_counterexample:
  "actionPackValues
     \<lparr>act_n = ''pos'', act_t = Some ''>hh'', act_w = Some ''01'', act_wz = None,
      act_sub = Some 1, act_mul = Some 2, act_concat = None\<rparr> [3, 4] = [3, 4]
   \<and> map (inverseConversion_spec
           \<lparr>act_n = ''pos'', act_t = Some ''>hh'', act_w = Some ''01'', act_wz = None,
            act_sub = Some 1, act_mul = Some 2, act_concat = None\<rparr>) [3, 4] = [4, 6]
   \<and> actionPackValues
     \<lparr>act_n = ''pos'', act_t = Some ''>hh'', act_w = Some ''01'', act_wz = None,
      act_sub = Some 1, act_mul = Some 2, act_concat = None\<rparr> [3, 4]
     \<noteq> map (inverseConversion_spec
           \<lparr>act_n = ''pos'', act_t = Some ''>hh'', act_w = Some ''01'', act_wz = None,
            act_sub = Some 1, act_mul = Some 2, act_concat = None\<rparr>) [3, 4]"
  by (simp add: actionPackValues_def inverseConversion_spec_def)

text \<open>
  C9, amended. For every action and a single value to write, \<open>sendAction\<close> subtracts
  \<open>sub\<close> and then multiplies by \<open>mul\<close> (each when declared) before the value is
  packed by \<open>structPack\<close> under the action's type code; a list of any other length is
  packed as given, with no conversion. The packed bytes, in hex between the action's
  prefix and postfix, are the \<open>hexWr\<close> argument of the command, and that command is
  what the message handler is given.
\<close>

theorem sendAction_conversion_single:
  "actionPackValues action [v] = [inverseConversion_spec action v]
   \<and> (length dat \<noteq> 1 \<longrightarrow> actionPackValues action dat = dat)
   \<and> (truthyStr (act_t action) \<longrightarrow>
        actionWriteBytes structPack action [v] =
          structPack (the (act_t action)) [inverseConversion_spec action v])
   \<and> actionCmd structPack deviceKey action dat =
        ''devman/cmdraw?bus='' @ fst (parseDeviceKey deviceKey) @ ''&addr=''
          @ snd (parseDeviceKey deviceKey) @ ''&hexWr='' @ strOr (act_w action)
          @ toHex (actionWriteBytes structPack action dat) @ strOr (act_wz action)
   \<and> (msgHandlerOf mgr = Some h \<longrightarrow>
        rpcLog (snd (sendAction structPack mgr deviceKey action dat)) =
          rpcLog mgr @ [actionCmd structPack deviceKey action dat])"
proof (intro conjI impI)
  show "actionPackValues action [v] = [inverseConversion_spec action v]"
    by (simp add: actionPackValues_def inverseConversion_spec_def Let_def split: option.splits)
  then show "actionWriteBytes structPack action [v] =
      structPack (the (act_t action)) [inverseConversion_spec action v]"
    if "truthyStr (act_t action)"
    using that by (simp add: actionWriteBytes_def)
  show "actionPackValues action dat = dat" if "length dat \<noteq> 1"
    using that by (simp add: actionPackValues_def)
  show "actionCmd structPack deviceKey action dat =
        ''devman/cmdraw?bus='' @ fst (parseDeviceKey deviceKey) @ ''&addr=''
          @ snd (parseDeviceKey deviceKey) @ ''&hexWr='' @ strOr (act_w action)
          @ toHex (actionWriteBytes structPack action dat) @ strOr (act_wz action)"
    by (simp add: actionCmd_def Let_def split: prod.splits)
  show "rpcLog (snd (sendAction structPack mgr deviceKey action dat)) =
          rpcLog mgr @ [actionCmd structPack deviceKey action dat]"
    if "msgHandlerOf mgr = Some h"
    using that by (rule sendAction_rpcLog)
qed

text \<open>The theorem for the action of the counterexample, with a \<open>structPack\<close> that
  writes each value as one byte, on device \<open>1_76a\<close>: the value 3 goes out as
  \<open>(3 - 1) * 2 = 4\<close>.\<close>

theorem sendAction_conversion_single_witness:
  "rpcLog (snd (sendAction (\<lambda>fmt vs. map (\<lambda>x. of_int \<lfloor>x\<rfloor>) vs)
       (setupManager newDeviceManager
          \<lparr>getPublishTopicName = (\<lambda>i. None),
           getMsgHandler = Some (\<lambda>cmd. RpcReply ''ok'' None)\<rparr>)
       ''1_76a''
       \<lparr>act_n = ''pos'', act_t = Some ''>hh'', act_w = Some ''01'', act_wz = None,
        act_sub = Some 1, act_mul = Some 2, act_concat = None\<rparr> [3]))
   = [''devman/cmdraw?bus=1&addr=76a&hexWr=0104'']"
proof -
  let ?sp = "\<lambda>(fmt :: string) vs. map (\<lambda>x :: rat. (of_int \<lfloor>x\<rfloor> :: byte)) vs"
  let ?h = "\<lambda>cmd :: string. RpcReply ''ok'' None"
  let ?mgr = "setupManager newDeviceManager
          \<lparr>getPublishTopicName = (\<lambda>i. None), getMsgHandler = Some ?h\<rparr>"
  let ?act = "\<lparr>act_n = ''pos'', act_t = Some ''>hh'', act_w = Some ''01'', act_wz = None,
        act_sub = Some 1, act_mul = Some 2, act_concat = None\<rparr>"
  have h: "msgHandlerOf ?mgr = Some ?h"
    by (simp add: msgHandlerOf_def setupManager_def)
  have t: "truthyStr (act_t ?act)"
    by (simp add: truthyStr_def)
  have key: "parseDeviceKey ''1_76a'' = (''1'', ''76a'')"
    by (simp add: parseDeviceKey_def)
  have hex: "toHex [4] = ''04''"
    by code_simp
  from sendAction_conversion_single [of ?act 3 "[3]" ?sp "''1_76a''" ?mgr ?h] h t
  have "rpcLog (snd (sendAction ?sp ?mgr ''1_76a'' ?act [3])) =
      rpcLog ?mgr @ [''devman/cmdraw?bus='' @ ''1'' @ ''&addr='' @ ''76a'' @ ''&hexWr=''
         @ ''01'' @ toHex (?sp ''>hh'' [inverseConversion_spec ?act 3]) @ '''']"
    by (simp add: key strOr_def)
  then show ?thesis
    by (simp add: inverseConversion_spec_def hex setupManager_def newDeviceManager_def)
qed

lemma compoundLoop_not_ok:
  "fst (compoundLoop structPack deviceKey action idx dat (False, mgr)) = False"
  by (induction dat arbitrary: idx mgr) simp_all

lemma compoundLoop_all_ok:
  assumes "msgHandlerOf mgr = Some h" and "\<forall>cmd. \<exists>d. h cmd = RpcReply ''ok'' d"
  shows "fst (compoundLoop structPack deviceKey action idx dat (True, mgr)) = True"
  using assms(1)
proof (induction dat arbitrary: idx mgr)
  case Nil
  then show ?case by simp
next
  case (Cons d ds)
  let ?r = "sendAction structPack mgr deviceKey action (of_nat idx # d)"
  obtain d' where "h (actionCmd structPack deviceKey action (of_nat idx # d)) = RpcReply ''ok'' d'"
    using assms(2) by blast
  with Cons.prems have "fst ?r = True"
    by (rule sendAction_ok)
  moreover have "msgHandlerOf (snd ?r) = Some h"
    using Cons.prems by (simp add: sendAction_msgHandler)
  ultimately have "?r = (True, snd ?r)" and "msgHandlerOf (snd ?r) = Some h"
    by (simp_all add: prod_eq_iff)
  then show ?case
    using Cons.IH [of "snd ?r" "Suc idx"] by (simp add: Let_def)
qed

text \<open>
  C10. For an action whose \<open>concat\<close> flag is unset or false, \<open>sendCompoundAction\<close>
  returns false for every list of data arrays; it has sent what the loop over the indices
  sends; and it returns false even when the message handler answers "ok" to every
  command, so that every \<open>sendAction\<close> of the loop returned true and \<open>allOk\<close> is still
  true at the end.
\<close>

theorem sendCompoundAction_returns_false:
  assumes "act_concat action \<noteq> Some True"
  shows "fst (sendCompoundAction structPack mgr deviceKey action dat) = False
    \<and> snd (sendCompoundAction structPack mgr deviceKey action dat) =
        snd (compoundLoop structPack deviceKey action 0 dat (True, mgr))
    \<and> (msgHandlerOf mgr = Some h \<and> (\<forall>cmd. \<exists>d. h cmd = RpcReply ''ok'' d) \<longrightarrow>
         fst (compoundLoop structPack deviceKey action 0 dat (True, mgr)) = True)"
  using assms compoundLoop_all_ok [of mgr h structPack deviceKey action 0 dat]
  by (simp add: sendCompoundAction_def split: prod.splits)

text \<open>The theorem for an action with no \<open>concat\<close> member, two data arrays and a
  handler that answers "ok": both commands are sent, each \<open>sendAction\<close> returns true,
  and the result is false.\<close>

theorem sendCompoundAction_returns_false_witness:
  "fst (sendCompoundAction (\<lambda>fmt vs. map (\<lambda>x. of_int \<lfloor>x\<rfloor>) vs)
       (setupManager newDeviceManager
          \<lparr>getPublishTopicName = (\<lambda>i. None),
           getMsgHandler = Some (\<lambda>cmd. RpcReply ''ok'' None)\<rparr>)
       ''1_76a''
       \<lparr>act_n = ''led'', act_t = Some ''BB'', act_w = Some ''02'', act_wz = None,
        act_sub = None, act_mul = None, act_concat = None\<rparr> [[7], [9]]) = False
   \<and> fst (compoundLoop (\<lambda>fmt vs. map (\<lambda>x. of_int \<lfloor>x\<rfloor>) vs) ''1_76a''
       \<lparr>act_n = ''led'', act_t = Some ''BB'', act_w = Some ''02'', act_wz = None,
        act_sub = None, act_mul = None, act_concat = None\<rparr> 0 [[7], [9]]
       (True, setupManager newDeviceManager
          \<lparr>getPublishTopicName = (\<lambda>i. None),
           getMsgHandler = Some (\<lambda>cmd. RpcReply ''ok'' None)\<rparr>)) = True"
proof -
  let ?sp = "\<lambda>(fmt :: string) vs. map (\<lambda>x :: rat. (of_int \<lfloor>x\<rfloor> :: byte)) vs"
  let ?h = "\<lambda>cmd :: string. RpcReply ''ok'' None"
  let ?mgr = "setupManager newDeviceManager
          \<lparr>getPublishTopicName = (\<lambda>i. None), getMsgHandler = Some ?h\<rparr>"
  let ?act = "\<lparr>act_n = ''led'', act_t = Some ''BB'', act_w = Some ''02'', act_wz = None,
        act_sub = None, act_mul = None, act_concat = None\<rparr>"
  have c: "act_concat ?act \<noteq> Some True"
    by simp
  have h: "msgHandlerOf ?mgr = Some ?h"
    by (simp add: msgHandlerOf_def setupManager_def)
  have ok: "\<forall>cmd. \<exists>d. ?h cmd = RpcReply ''ok'' d"
    by simp
  from sendCompoundAction_returns_false [OF c, of ?sp ?mgr "''1_76a''" "[[7], [9]]" ?h] h ok
  show ?thesis
    by blast
qed

section \<open>Markers of JSON device entries (C8)\<close>

lemma extractMarkers_fold_keys:
  "fst ` set (foldl (\<lambda>markers (key, v).
                   if startsWith key ''_'' \<and> key \<noteq> ''_t'' \<and> key \<noteq> ''_o''
                   then (if key = ''__proto__'' then markers else AList.update key v markers)
                   else markers) acc entries) =
   fst ` set acc \<union>
     {k \<in> fst ` set entries.
        startsWith k ''_'' \<and> k \<noteq> ''_t'' \<and> k \<noteq> ''_o'' \<and> k \<noteq> ''__proto__''}"
proof (induction entries arbitrary: acc)
  case Nil
  then show ?case by simp
next
  case (Cons e es)
  obtain k v where e: "e = (k, v)"
    by (cases e)
  show ?case
    unfolding e by (simp add: Cons.IH) (auto simp: AList.update_keys image_iff dom_update)
qed

text \<open>What the code does for every entry: the marker keys are the keys that start with
  an underscore other than \<open>_t\<close> and \<open>_o\<close> (and \<open>__proto__\<close>, which JavaScript
  does not store as a key); \<open>_i\<close> is not left out.\<close>

lemma extractMarkers_keys:
  "fst ` set (extractMarkers (JObj entries)) =
     {k \<in> fst ` set entries.
        startsWith k ''_'' \<and> k \<noteq> ''_t'' \<and> k \<noteq> ''_o'' \<and> k \<noteq> ''__proto__''}"
  by (simp add: extractMarkers_def extractMarkers_fold_keys)

text \<open>The second half of the claim holds: with markers present, the event's
  \<open>fromOfflineBuffer\<close> is \<open>isTruthy\<close> of the \<open>_buf\<close> marker (true, 1 or "1").\<close>

lemma decodedData_fromOfflineBuffer:
  "m \<noteq> [] \<Longrightarrow>
   dd_markers (decodedData deviceKey busNm devAddr ds attrVals tlBefore grp (Some m)) = Some m
   \<and> dd_fromOfflineBuffer (decodedData deviceKey busNm devAddr ds attrVals tlBefore grp (Some m))
       = Some (isTruthy (map_of m ''_buf''))"
  by (simp add: decodedData_def)

text \<open>
  C8 fails on the code at a device entry that names its type by index: for
  \<open>{"_i": 12, "x1": "0100"}\<close> the marker map is \<open>{"_i": 12}\<close>, where the claim (and
  the spec, which lists \<open>_i\<close> with \<open>_t\<close> and \<open>_o\<close> as reserved metadata) has no
  marker at all. The decoded-data event of such an entry then carries the \<open>_i\<close> marker
  and \<open>fromOfflineBuffer = false\<close>, where an entry named by \<open>_t\<close> carries neither.
\<close>

theorem extractMarkers_type_index_is_marker:
  "extractMarkers (JObj [(''_i'', JNum 12), (''x1'', JStr ''0100'')]) = [(''_i'', JNum 12)]
   \<and> extractMarkers (JObj [(''_t'', JStr ''servo''), (''x1'', JStr ''0100'')]) = []
   \<and> dd_markers (decodedData ''0_a1'' ''0'' ''a1'' ds [(''x1'', [1])] 0 ''x1''
        (Some (extractMarkers (JObj [(''_i'', JNum 12), (''x1'', JStr ''0100'')]))))
       = Some [(''_i'', JNum 12)]
   \<and> dd_fromOfflineBuffer (decodedData ''0_a1'' ''0'' ''a1'' ds [(''x1'', [1])] 0 ''x1''
        (Some (extractMarkers (JObj [(''_i'', JNum 12), (''x1'', JStr ''0100'')]))))
       = Some False
   \<and> dd_markers (decodedData ''0_a1'' ''0'' ''a1'' ds [(''x1'', [1])] 0 ''x1''
        (Some (extractMarkers (JObj [(''_t'', JStr ''servo''), (''x1'', JStr ''0100'')]))))
       = None"
  by (simp add: extractMarkers_def startsWith_def decodedData_def isTruthy_def)

section \<open>Pending deletion (C4)\<close>

lemma count_list_map_inj:
  "inj f \<Longrightarrow> count_list (map f xs) (f x) = count_list xs x"
  by (induction xs) (auto dest: injD)

lemma count_list_distinct:
  "distinct xs \<Longrightarrow> x \<in> set xs \<Longrightarrow> count_list xs x = 1"
  by (induction xs) auto

text \<open>The registered device-removed callbacks are distinct: the list starts empty and
  \<open>addDeviceRemovedCallback\<close> does not add a callback that is in it.\<close>

lemma deviceRemovedCallbacks_distinct:
  "distinct (deviceRemovedCallbacks newDeviceManager)"
  "distinct (deviceRemovedCallbacks mgr) \<Longrightarrow>
     distinct (deviceRemovedCallbacks (addDeviceRemovedCallback mgr cb))"
  "distinct (deviceRemovedCallbacks mgr) \<Longrightarrow>
     distinct (deviceRemovedCallbacks (removeDeviceRemovedCallback mgr cb))"
  by (simp_all add: newDeviceManager_def addDeviceRemovedCallback_def
      removeDeviceRemovedCallback_def)

text \<open>
  C4. A record whose status byte has bit 6 set, for a device key that is in the state
  store: processing the record leaves the store as it was without that device (so the
  record appends no attribute data, to this device or to any other), removes the device's
  stats and its last-update time, and calls the registered device-removed callbacks in
  order, each exactly once and nothing else, with the device state as it was but
  \<open>onlineState = PendingDeletion\<close>. When the record passed the length checks of the
  loop, the rest of the frame is processed from that state.
\<close>

theorem pending_deletion_record:
  assumes "recIsPendingDeletion rxMsg msgPos"
    and "map_of (devicesState mgr) (recDeviceKey rxMsg msgPos) = Some ds"
    and "distinct (deviceRemovedCallbacks mgr)"
  shows "(let k = recDeviceKey rxMsg msgPos;
              mgr' = processRecord pmag nowMs rxMsg msgPos recordLen mgr;
              removed = ds\<lparr>onlineState := PendingDeletion\<rparr>;
              calls = drop (length (callbackLog mgr)) (callbackLog mgr')
          in devicesState mgr' = AList.delete k (devicesState mgr)
             \<and> map_of (devicesState mgr') k = None
             \<and> map_of (deviceStats mgr') k = None
             \<and> map_of (deviceLastUpdateTime mgr') k = None
             \<and> callbackLog mgr' = callbackLog mgr @ calls
             \<and> calls = map (\<lambda>cb. DeviceRemovedCalled cb k removed) (deviceRemovedCallbacks mgr)
             \<and> (\<forall>cb \<in> set (deviceRemovedCallbacks mgr).
                   count_list calls (DeviceRemovedCalled cb k removed) = 1)
             \<and> (msgPos < length rxMsg
                  \<and> recordLenLen + recordHeaderLen \<le> length rxMsg - msgPos
                  \<and> getU16 rxMsg msgPos \<le> length rxMsg - msgPos - recordLenLen
                  \<and> recordLen = getU16 rxMsg msgPos \<longrightarrow>
                 recordsLoop pmag nowMs rxMsg msgPos mgr =
                   recordsLoop pmag nowMs rxMsg (msgPos + recordLenLen + recordLen) mgr'))"
proof -
  define k where "k = recDeviceKey rxMsg msgPos"
  define mgr1 where
    "mgr1 = mgr\<lparr>deviceLastUpdateTime := AList.update k nowMs (deviceLastUpdateTime mgr)\<rparr>"
  define removed where "removed = ds\<lparr>onlineState := PendingDeletion\<rparr>"
  define mgr' where "mgr' = processRecord pmag nowMs rxMsg msgPos recordLen mgr"
  have mgr': "mgr' = removeDevice mgr1 k"
    using assms(1) by (simp add: mgr'_def processRecord_pending mgr1_def k_def)
  have ds1: "map_of (devicesState mgr1) k = Some ds"
    using assms(2) by (simp add: mgr1_def k_def)
  have store: "devicesState mgr' = AList.delete k (devicesState mgr)"
    by (simp add: mgr' removeDevice_devicesState mgr1_def)
  have gone: "map_of (devicesState mgr') k = None"
    by (simp add: store delete_conv)
  have stats: "map_of (deviceStats mgr') k = None"
    by (simp add: mgr' removeDevice_deviceStats delete_conv)
  have lastUpd: "map_of (deviceLastUpdateTime mgr') k = None"
    by (simp add: mgr' removeDevice_lastUpdate delete_conv)
  have log: "callbackLog mgr' = callbackLog mgr @
      map (\<lambda>cb. DeviceRemovedCalled cb k removed) (deviceRemovedCallbacks mgr)"
    using removeDevice_callbackLog [OF ds1] by (simp add: mgr' removed_def mgr1_def)
  then have calls: "drop (length (callbackLog mgr)) (callbackLog mgr') =
      map (\<lambda>cb. DeviceRemovedCalled cb k removed) (deviceRemovedCallbacks mgr)"
    by simp
  have inj: "inj (\<lambda>cb. DeviceRemovedCalled cb k removed)"
    by (simp add: inj_def)
  have once: "\<forall>cb \<in> set (deviceRemovedCallbacks mgr).
      count_list (map (\<lambda>cb. DeviceRemovedCalled cb k removed) (deviceRemovedCallbacks mgr))
        (DeviceRemovedCalled cb k removed) = 1"
    using count_list_map_inj [OF inj] count_list_distinct [OF assms(3)] by simp
  have step: "recordsLoop pmag nowMs rxMsg msgPos mgr =
      recordsLoop pmag nowMs rxMsg (msgPos + recordLenLen + recordLen) mgr'"
    if "msgPos < length rxMsg"
      and "recordLenLen + recordHeaderLen \<le> length rxMsg - msgPos"
      and "getU16 rxMsg msgPos \<le> length rxMsg - msgPos - recordLenLen"
      and "recordLen = getU16 rxMsg msgPos"
    using recordsLoop_step [OF that(1-3)] that(4) by (simp add: mgr'_def)
  show ?thesis
    unfolding Let_def k_def [symmetric] mgr'_def [symmetric] removed_def [symmetric] calls
    using store gone stats lastUpd log once step by blast
qed

lemma examplePendingFrame_key:
  "recDeviceKey examplePendingFrame 4 = ''1_76a''"
  by code_simp

text \<open>The theorem for the frame \<open>00 80 DB 01 | 00 07 C1 0000076a 000b\<close> and a manager
  that knows device \<open>1_76a\<close> and has the callbacks 7 and 8 registered.\<close>

theorem pending_deletion_record_witness:
  "devicesState (processRecord (processMsgAttrGroup_spec exampleDecoder) 2000
       examplePendingFrame 4 7 exampleManager) = []
   \<and> map_of (deviceStats (processRecord (processMsgAttrGroup_spec exampleDecoder) 2000
       examplePendingFrame 4 7 exampleManager)) ''1_76a'' = None
   \<and> map_of (deviceLastUpdateTime (processRecord (processMsgAttrGroup_spec exampleDecoder) 2000
       examplePendingFrame 4 7 exampleManager)) ''1_76a'' = None
   \<and> callbackLog (processRecord (processMsgAttrGroup_spec exampleDecoder) 2000
       examplePendingFrame 4 7 exampleManager) =
       [DeviceRemovedCalled 7 ''1_76a'' (exampleDevice\<lparr>onlineState := PendingDeletion\<rparr>),
        DeviceRemovedCalled 8 ''1_76a'' (exampleDevice\<lparr>onlineState := PendingDeletion\<rparr>)]"
proof -
  have a: "recIsPendingDeletion examplePendingFrame 4"
    by (simp add: recIsPendingDeletion_def recStatusByte_def examplePendingFrame_def
        recordLenLen_def)
  have b: "map_of (devicesState exampleManager) (recDeviceKey examplePendingFrame 4)
      = Some exampleDevice"
    by (simp add: examplePendingFrame_key exampleManager_def)
  have c: "distinct (deviceRemovedCallbacks exampleManager)"
    by (simp add: exampleManager_def)
  have d: "devicesState exampleManager = [(''1_76a'', exampleDevice)]"
    "callbackLog exampleManager = []" "deviceRemovedCallbacks exampleManager = [7, 8]"
    by (simp_all add: exampleManager_def newDeviceManager_def)
  from pending_deletion_record [OF a b c, of "processMsgAttrGroup_spec exampleDecoder" 2000 7]
  show ?thesis
    unfolding Let_def examplePendingFrame_key d by simp
qed

section \<open>Consuming a devbin frame (C1)\<close>

lemma recordsValid_fit:
  "recordsValid rxMsg pos \<Longrightarrow> recordsFit rxMsg pos"
proof (induction rxMsg pos rule: recordsFit.induct)
  case (1 rxMsg pos)
  show ?case
  proof (cases "pos < length rxMsg")
    case True
    with "1.prems" have v: "pos + recordLenLen \<le> length rxMsg"
      "recordHeaderLen \<le> getU16 rxMsg pos"
      "getU16 rxMsg pos \<le> length rxMsg - pos - recordLenLen"
      "recordsValid rxMsg (pos + recordLenLen + getU16 rxMsg pos)"
      by (simp_all add: recordsValid.simps [of rxMsg pos])
    with True "1.IH" have "recordsFit rxMsg (pos + recordLenLen + getU16 rxMsg pos)"
      by simp
    with True v show ?thesis
      by (subst recordsFit.simps) simp
  next
    case False
    then show ?thesis
      by (subst recordsFit.simps) simp
  qed
qed

lemma recordsLoop_done:
  "recordsFit rxMsg msgPos \<Longrightarrow> msgPos \<le> length rxMsg \<Longrightarrow>
   fst (recordsLoop pmag nowMs rxMsg msgPos mgr) = RecordsDone (length rxMsg)"
proof (induction pmag nowMs rxMsg msgPos mgr rule: recordsLoop.induct)
  case (1 pmag nowMs rxMsg msgPos mgr)
  show ?case
  proof (cases "msgPos < length rxMsg")
    case True
    with "1.prems"(1) have f: "recordLenLen + recordHeaderLen \<le> length rxMsg - msgPos"
      "getU16 rxMsg msgPos \<le> length rxMsg - msgPos - recordLenLen"
      "recordsFit rxMsg (msgPos + recordLenLen + getU16 rxMsg msgPos)"
      by (simp_all add: recordsFit.simps [of rxMsg msgPos])
    have le: "msgPos + recordLenLen + getU16 rxMsg msgPos \<le> length rxMsg"
      using f(1,2) True by arith
    have "fst (recordsLoop pmag nowMs rxMsg (msgPos + recordLenLen + getU16 rxMsg msgPos)
              (processRecord pmag nowMs rxMsg msgPos (getU16 rxMsg msgPos) mgr))
          = RecordsDone (length rxMsg)"
      using "1.IH" [OF True refl _ refl _ f(3) le] f(1,2) by simp
    then show ?thesis
      using True f(1,2) by (simp add: recordsLoop_step)
  next
    case False
    with "1.prems"(2) have "msgPos = length rxMsg"
      by simp
    then show ?thesis
      by (simp add: recordsLoop_end)
  qed
qed

text \<open>
  C1, as stated, fails. In the frame \<open>00 80 | DB FF | 00 03 81 00 00\<close> the one record
  declares a body of 3 bytes, and 3 bytes remain after its length prefix: every record's
  length fits the remaining buffer. The loop still returns at position 4, because fewer
  than nine bytes (a length prefix and a header) are left there; 4 of the 9 bytes are
  consumed.
\<close>

theorem devbin_truncated_record_counterexample:
  "recordLensFit truncatedRecordFrame 4
   \<and> checkEnvelope newDeviceManager truncatedRecordFrame = RecordsFrom 4
   \<and> handleClientMsgBinary (processMsgAttrGroup_spec exampleDecoder) 0 truncatedRecordFrame
        newDeviceManager = (Some (TooShort 4), newDeviceManager\<lparr>debugMsgIndex := 1\<rparr>)
   \<and> fst (handleClientMsgBinary (processMsgAttrGroup_spec exampleDecoder) 0 truncatedRecordFrame
        newDeviceManager) \<noteq> Some (RecordsDone (length truncatedRecordFrame))"
proof -
  have len: "length truncatedRecordFrame = 9"
    by (simp add: truncatedRecordFrame_def)
  have u16: "getU16 truncatedRecordFrame 4 = 3"
    by (simp add: getU16_def truncatedRecordFrame_def)
  have fit: "recordLensFit truncatedRecordFrame 4"
    by (subst recordLensFit.simps, simp add: len u16 recordLenLen_def,
        subst recordLensFit.simps, simp add: len)
  have env: "checkEnvelope newDeviceManager truncatedRecordFrame = RecordsFrom 4"
    by (simp add: checkEnvelope_def truncatedRecordFrame_def msgTypeLen_def
        devbinEnvelopeLen_def devbinMagicMin_def devbinMagicMax_def Let_def)
  have loop: "recordsLoop pmag nowMs truncatedRecordFrame 4 mgr = (TooShort 4, mgr)"
    for pmag nowMs mgr
    by (subst recordsLoop.simps)
      (simp add: len recordLenLen_def recordHeaderLen_def busInfoLen_def deviceAddrLen_def
        devTypeIdxLen_def)
  have "handleClientMsgBinary (processMsgAttrGroup_spec exampleDecoder) 0
      truncatedRecordFrame newDeviceManager
      = (Some (TooShort 4),
         newDeviceManager\<lparr>debugMsgIndex := debugMsgIndex newDeviceManager + 1\<rparr>)"
    by (simp add: handleClientMsgBinary_def Let_def checkEnvelope_debugMsgIndex env loop)
  moreover have "debugMsgIndex newDeviceManager = 0"
    by (simp add: newDeviceManager_def)
  ultimately have run: "handleClientMsgBinary (processMsgAttrGroup_spec exampleDecoder) 0
      truncatedRecordFrame newDeviceManager
      = (Some (TooShort 4), newDeviceManager\<lparr>debugMsgIndex := 1\<rparr>)"
    by simp
  show ?thesis
    using fit env run by (simp add: len)
qed

text \<open>
  C1, amended. For every devbin frame that holds its 2-byte prefix and passes the envelope
  check: if every record starts with at least nine bytes left (a length prefix and a
  header; this holds when every \<open>recordLen\<close> is at least 7, the header) and its
  \<open>recordLen\<close> fits the bytes remaining after the length prefix, then the loop over
  the records ends at the end of the message: prefix, envelope and records together are
  the whole message. And when the loop, after any number of records, comes to a record
  whose \<open>recordLen\<close> exceeds the bytes remaining after its length prefix, the call
  returns there, as a value (no exception), with the manager exactly as the earlier
  records left it: neither the sweep nor the state callbacks run.
\<close>

theorem devbin_frame_consumed_or_abandoned:
  assumes "checkEnvelope mgr rxMsg = RecordsFrom start"
  shows "(msgTypeLen \<le> length rxMsg \<and> recordsFit rxMsg start \<longrightarrow>
            fst (handleClientMsgBinary pmag nowMs rxMsg mgr)
              = Some (RecordsDone (length rxMsg)))
     \<and> (recordsValid rxMsg start \<longrightarrow> recordsFit rxMsg start)
     \<and> (recordsReach pmag nowMs rxMsg
            (start, mgr\<lparr>debugMsgIndex := debugMsgIndex mgr + 1\<rparr>) (msgPos, mgr')
          \<and> msgPos + recordLenLen \<le> length rxMsg
          \<and> length rxMsg - msgPos - recordLenLen < getU16 rxMsg msgPos \<longrightarrow>
            handleClientMsgBinary pmag nowMs rxMsg mgr =
              (Some (if length rxMsg - msgPos < recordLenLen + recordHeaderLen
                     then TooShort msgPos else Overrun msgPos), mgr'))"
proof (intro conjI impI)
  let ?mgr0 = "mgr\<lparr>debugMsgIndex := debugMsgIndex mgr + 1\<rparr>"
  show "fst (handleClientMsgBinary pmag nowMs rxMsg mgr) = Some (RecordsDone (length rxMsg))"
    if h: "msgTypeLen \<le> length rxMsg \<and> recordsFit rxMsg start"
  proof -
    have "start \<le> length rxMsg"
      using checkEnvelope_pos [OF assms] h by auto
    with h have "fst (recordsLoop pmag nowMs rxMsg start ?mgr0) = RecordsDone (length rxMsg)"
      by (simp add: recordsLoop_done)
    then show ?thesis
      by (cases "recordsLoop pmag nowMs rxMsg start ?mgr0")
        (simp add: handleClientMsgBinary_def Let_def checkEnvelope_debugMsgIndex assms)
  qed
  show "recordsFit rxMsg start" if "recordsValid rxMsg start"
    using that by (rule recordsValid_fit)
  show "handleClientMsgBinary pmag nowMs rxMsg mgr =
      (Some (if length rxMsg - msgPos < recordLenLen + recordHeaderLen
             then TooShort msgPos else Overrun msgPos), mgr')"
    if h: "recordsReach pmag nowMs rxMsg (start, ?mgr0) (msgPos, mgr')
          \<and> msgPos + recordLenLen \<le> length rxMsg
          \<and> length rxMsg - msgPos - recordLenLen < getU16 rxMsg msgPos"
  proof -
    from h have "recordsLoop pmag nowMs rxMsg start ?mgr0 =
        recordsLoop pmag nowMs rxMsg msgPos mgr'"
      using recordsReach_loop [of pmag nowMs rxMsg "(start, ?mgr0)" "(msgPos, mgr')"] by simp
    also have "\<dots> = ((if length rxMsg - msgPos < recordLenLen + recordHeaderLen
             then TooShort msgPos else Overrun msgPos), mgr')"
      using h by (simp add: recordsLoop_stops)
    finally show ?thesis
      by (simp add: handleClientMsgBinary_def Let_def checkEnvelope_debugMsgIndex assms)
  qed
qed

lemma overrunFrame_key:
  "recDeviceKey overrunFrame 4 = ''1_76a''"
  by code_simp

text \<open>
  The theorem at two frames, for the manager that knows device \<open>1_76a\<close>. The frame
  with the one pending-deletion record is consumed to its end, position 13. The same
  frame followed by a record that declares 32 body bytes where 8 remain is abandoned at
  position 13, and the manager is as the first record left it: the device is removed and
  both callbacks were called.
\<close>

theorem devbin_frame_consumed_or_abandoned_witness:
  "fst (handleClientMsgBinary (processMsgAttrGroup_spec exampleDecoder) 2000
          examplePendingFrame exampleManager) = Some (RecordsDone 13)
   \<and> fst (handleClientMsgBinary (processMsgAttrGroup_spec exampleDecoder) 2000
          overrunFrame exampleManager) = Some (Overrun 13)
   \<and> devicesState (snd (handleClientMsgBinary (processMsgAttrGroup_spec exampleDecoder) 2000
          overrunFrame exampleManager)) = []
   \<and> callbackLog (snd (handleClientMsgBinary (processMsgAttrGroup_spec exampleDecoder) 2000
          overrunFrame exampleManager)) =
       [DeviceRemovedCalled 7 ''1_76a'' (exampleDevice\<lparr>onlineState := PendingDeletion\<rparr>),
        DeviceRemovedCalled 8 ''1_76a'' (exampleDevice\<lparr>onlineState := PendingDeletion\<rparr>)]"
proof -
  let ?pmag = "processMsgAttrGroup_spec exampleDecoder"
  let ?m0 = "exampleManager\<lparr>debugMsgIndex := debugMsgIndex exampleManager + 1\<rparr>"
  let ?m1 = "processRecord ?pmag 2000 overrunFrame 4 (getU16 overrunFrame 4) ?m0"
  have lenP: "length examplePendingFrame = 13" and lenO: "length overrunFrame = 23"
    by (simp_all add: examplePendingFrame_def overrunFrame_def)
  have u16P: "getU16 examplePendingFrame 4 = 7"
    and u16O: "getU16 overrunFrame 4 = 7" "getU16 overrunFrame 13 = 32"
    by (simp_all add: getU16_def examplePendingFrame_def overrunFrame_def)
  have nums: "recordLenLen = 2" "recordHeaderLen = 7" "msgTypeLen = 2"
    by (simp_all add: recordLenLen_def recordHeaderLen_def busInfoLen_def deviceAddrLen_def
        devTypeIdxLen_def msgTypeLen_def)
  have envP: "checkEnvelope exampleManager examplePendingFrame = RecordsFrom 4"
    by (simp add: checkEnvelope_def examplePendingFrame_def exampleManager_def
        exampleUtils_def msgTypeLen_def devbinEnvelopeLen_def devbinMagicMin_def
        devbinMagicMax_def truthyStr_def Let_def)
  have envO: "checkEnvelope exampleManager overrunFrame = RecordsFrom 4"
    by (simp add: checkEnvelope_def overrunFrame_def examplePendingFrame_def
        exampleManager_def exampleUtils_def msgTypeLen_def devbinEnvelopeLen_def
        devbinMagicMin_def devbinMagicMax_def truthyStr_def Let_def)
  have fitP: "recordsFit examplePendingFrame 4"
    by (subst recordsFit.simps, simp add: lenP u16P nums, subst recordsFit.simps,
        simp add: lenP)
  have reach: "recordsReach ?pmag 2000 overrunFrame (4, ?m0) (4 + recordLenLen + getU16 overrunFrame 4, ?m1)"
    by (rule reach_record [OF reach_start]) (simp_all add: lenO u16O nums)
  then have reach': "recordsReach ?pmag 2000 overrunFrame (4, ?m0) (13, ?m1)"
    by (simp add: u16O nums)
  have stop: "13 + recordLenLen \<le> length overrunFrame
      \<and> length overrunFrame - 13 - recordLenLen < getU16 overrunFrame 13"
    by (simp add: lenO u16O nums)
  have a: "fst (handleClientMsgBinary ?pmag 2000 examplePendingFrame exampleManager)
      = Some (RecordsDone 13)"
    using devbin_frame_consumed_or_abandoned [OF envP, of ?pmag 2000] fitP
    by (simp add: lenP nums)
  have b: "handleClientMsgBinary ?pmag 2000 overrunFrame exampleManager = (Some (Overrun 13), ?m1)"
    using devbin_frame_consumed_or_abandoned [OF envO, of ?pmag 2000 13 ?m1] reach' stop
    by (simp add: lenO nums)
  have pend: "recIsPendingDeletion overrunFrame 4"
    by (simp add: recIsPendingDeletion_def recStatusByte_def overrunFrame_def
        examplePendingFrame_def recordLenLen_def)
  have m1: "?m1 = removeDevice
      (?m0\<lparr>deviceLastUpdateTime := AList.update ''1_76a'' 2000 (deviceLastUpdateTime ?m0)\<rparr>)
      ''1_76a''"
    using processRecord_pending [OF pend] by (simp add: overrunFrame_key)
  have c: "devicesState ?m1 = []"
    unfolding m1 removeDevice_devicesState by (simp add: exampleManager_def)
  have d: "callbackLog ?m1 =
       [DeviceRemovedCalled 7 ''1_76a'' (exampleDevice\<lparr>onlineState := PendingDeletion\<rparr>),
        DeviceRemovedCalled 8 ''1_76a'' (exampleDevice\<lparr>onlineState := PendingDeletion\<rparr>)]"
    unfolding m1
    by (subst removeDevice_callbackLog [where ds = exampleDevice])
      (simp_all add: exampleManager_def newDeviceManager_def)
  show ?thesis
    using a b c d by simp
qed

section \<open>Bounded histories in lock-step with the timeline (C5)\<close>



lemma trimToCap_map: "trimToCap cap (map f xs) = map f (trimToCap cap xs)"
  by (simp add: trimToCap_def drop_map)




lemma map_of_bounded:
  "attrsBounded cap attrs \<Longrightarrow> map_of attrs nm = Some a \<Longrightarrow> length (values' a) \<le> cap"
  unfolding attrsBounded_def by (auto dest: map_of_SomeD)









































section \<open>Formatting the latest value (C7)\<close>

lemma isDigit_code: "isDigit c \<longleftrightarrow> 48 \<le> (of_char c :: nat) \<and> (of_char c :: nat) \<le> 57"
  by (simp add: isDigit_def digitVal_def Let_def)

lemma digit_not_special:
  assumes "isDigit c"
  shows "\<not> isWhiteSpace c" "c \<noteq> CHR ''-''" "c \<noteq> CHR ''+''" "c \<noteq> CHR ''.''" "c \<noteq> CHR ''%''"
  using assms by (auto simp: isDigit_code isWhiteSpace_def)

lemma stopChar_plain:
  assumes "stopChar c"
  shows "\<not> isDigit c" "\<not> isWhiteSpace c" "c \<noteq> CHR ''-''" "c \<noteq> CHR ''+''" "c \<noteq> CHR ''%''"
  using assms by (auto simp: stopChar_def isDigit_code isWhiteSpace_def)

lemma takeWhile_digits_append:
  "\<forall>c \<in> set ds. isDigit c \<Longrightarrow> rest = [] \<or> \<not> isDigit (hd rest) \<Longrightarrow>
   takeWhile isDigit (ds @ rest) = ds"
  by (induction ds) (auto simp: takeWhile_eq_Nil_iff neq_Nil_conv)

lemma parseInt10_digits:
  assumes "\<forall>c \<in> set ds. isDigit c" and "rest = [] \<or> stopChar (hd rest)"
  shows "parseInt10 (ds @ rest) = (if ds = [] then None else Some (int (digitsVal ds)))"
proof (cases ds)
  case Nil
  show ?thesis
  proof (cases rest)
    case Nil
    with \<open>ds = []\<close> show ?thesis by (simp add: parseInt10_def)
  next
    case (Cons r rs)
    with assms(2) have "stopChar r" by simp
    then show ?thesis
      using stopChar_plain [of r] \<open>ds = []\<close> Cons by (simp add: parseInt10_def Let_def)
  qed
next
  case (Cons d ds')
  then have d: "isDigit d" using assms(1) by simp
  have tw: "takeWhile isDigit (ds @ rest) = ds"
    using assms stopChar_plain(1) by (intro takeWhile_digits_append) auto
  show ?thesis
    using digit_not_special [OF d] tw Cons
    by (simp add: parseInt10_def Let_def)
qed

lemma splitOn_no_sep:
  "c \<notin> set s \<Longrightarrow> splitOn c s = [s]"
  by (induction s) auto

lemma splitOn_one_sep:
  "c \<notin> set s \<Longrightarrow> c \<notin> set t \<Longrightarrow> splitOn c (s @ c # t) = [s, t]"
  by (induction s) (auto simp: splitOn_no_sep)

lemma endsWith_snoc: "endsWith (s @ [c]) [d] \<longleftrightarrow> c = d"
  by (auto simp: endsWith_def)

lemma padStart_replicate:
  "padStart s (if ds = [] then None else Some (int (digitsVal ds))) c
     = replicate (digitsVal ds - length s) c @ s"
  by (simp add: padStart_def digitsVal_def nat_diff_distrib')

lemma strip_percent:
  assumes "pct = ''%'' \<or> pct = ''''" and "s \<noteq> []" and "hd s \<noteq> CHR ''%''"
  shows "(if startsWith (pct @ s) ''%'' then drop 1 (pct @ s) else pct @ s) = s"
  using assms by (auto simp: startsWith_def neq_Nil_conv)

lemma format_body_head:
  assumes "\<forall>c \<in> set wd. isDigit c" and "stopChar (hd rest)" and "rest \<noteq> []"
  shows "hd (wd @ rest) \<noteq> CHR ''%''"
  using assms digit_not_special(5) stopChar_plain(5)
  by (cases wd) (auto simp: hd_append)

lemma startsWith_zero_body:
  assumes "stopChar (hd rest)" and "rest \<noteq> []"
  shows "startsWith (wd @ rest) ''0'' = startsWith wd ''0''"
  using assms by (cases wd; cases rest) (auto simp: startsWith_def stopChar_def)

lemma toFixed_NaN: "toFixed nts v None = toFixed nts v (Some 0)"
  by (simp add: toFixed_def)

lemma digitsVal_Nil: "digitsVal [] = 0"
  by (simp add: digitsVal_def)

lemma endsWith_last: "s \<noteq> [] \<Longrightarrow> endsWith s [c] \<longleftrightarrow> last s = c"
  by (cases s rule: rev_cases) (auto simp: endsWith_def)

lemma pad_width:
  "padStart s (if wd = [] then None else Some (int (digitsVal wd))) c
     = replicate (digitsVal wd - length s) c @ s"
  by (auto simp: padStart_def nat_diff_distrib' digitsVal_Nil)

lemma pad_width_truthy:
  "(if truthyNum (if wd = [] then None else Some (int (digitsVal wd)))
    then padStart s (if wd = [] then None else Some (int (digitsVal wd))) c else s)
     = replicate (digitsVal wd - length s) c @ s"
  by (auto simp: truthyNum_def padStart_def nat_diff_distrib' digitsVal_Nil)

lemma formatValue_f:
  assumes wd: "\<forall>c \<in> set wd. isDigit c" and pd: "\<forall>c \<in> set pd. isDigit c"
    and pp: "precDigits precPart pd"
    and fx: "toFixed nts v (Some (int (digitsVal pd))) = Inr body"
  shows "formatValue nts v (wd @ precPart @ ''f'')
      = Inr (replicate (digitsVal wd - length body) CHR '' '' @ body)"
proof -
  have sc: "stopChar CHR ''f''" by (simp add: stopChar_def)
  have w: "CHR ''.'' \<notin> set wd" and p: "CHR ''.'' \<notin> set pd"
    using wd pd digit_not_special(4) by blast+
  have w0: "parseInt10 wd = (if wd = [] then None else Some (int (digitsVal wd)))"
    using parseInt10_digits [OF wd, of "[]"] by simp
  have wf: "parseInt10 (wd @ ''f'') = (if wd = [] then None else Some (int (digitsVal wd)))"
    using parseInt10_digits [OF wd, of "''f''"] sc by simp
  have pf: "parseInt10 (pd @ ''f'') = (if pd = [] then None else Some (int (digitsVal pd)))"
    using parseInt10_digits [OF pd, of "''f''"] sc by simp
  from pp show ?thesis
    unfolding precDigits_def
  proof (elim disjE conjE)
    assume e: "precPart = []" "pd = []"
    have ends: "endsWith (wd @ ''f'') ''f''"
      by (simp add: endsWith_last)
    have sp: "splitOn CHR ''.'' (wd @ ''f'') = [wd @ ''f'']"
      using w by (simp add: splitOn_no_sep)
    have fx0: "toFixed nts v (Some 0) = Inr body"
      using fx e by (simp add: digitsVal_Nil)
    show ?thesis
      unfolding e formatValue_def append_Nil
      by (simp only: ends sp if_True Let_def list.size fx0 sum.case nth_Cons_0 wf
          pad_width_truthy) (simp add: fx0)
  next
    assume e: "precPart = CHR ''.'' # pd"
    have ends: "endsWith (wd @ (CHR ''.'' # pd) @ ''f'') ''f''"
      by (simp add: endsWith_last)
    have sp: "splitOn CHR ''.'' (wd @ (CHR ''.'' # pd) @ ''f'') = [wd, pd @ ''f'']"
      using splitOn_one_sep [of "CHR ''.''" wd "pd @ ''f''"] w p by simp
    have fx': "toFixed nts v (if pd = [] then None else Some (int (digitsVal pd))) = Inr body"
      using fx by (cases "pd = []") (simp_all add: toFixed_NaN digitsVal_Nil)
    have len: "length [wd, pd @ ''f''] = 2" by simp
    show ?thesis
      unfolding e formatValue_def
      by (simp only: ends sp if_True Let_def len nth_Cons_0 nth_Cons_Suc One_nat_def
          fx' sum.case w0 pf pad_width_truthy refl)
  qed
qed

lemma formatValue_x:
  assumes wd: "\<forall>c \<in> set wd. isDigit c" and pp: "precDigits precPart pd"
  shows "formatValue nts v (wd @ precPart @ ''x'')
      = Inr (replicate (digitsVal wd - length (intToString 16 \<lfloor>v\<rfloor>))
               (if startsWith wd ''0'' then CHR ''0'' else CHR '' '') @ intToString 16 \<lfloor>v\<rfloor>)"
proof -
  let ?rest = "precPart @ ''x''"
  have r: "?rest \<noteq> []" "stopChar (hd ?rest)"
    using pp by (auto simp: precDigits_def stopChar_def)
  have nf: "\<not> endsWith (wd @ ?rest) ''f''" and ex: "endsWith (wd @ ?rest) ''x''"
    by (simp_all add: endsWith_last)
  have z: "startsWith (wd @ ?rest) ''0'' = startsWith wd ''0''"
    using r by (intro startsWith_zero_body) auto
  have bl: "butlast (wd @ ?rest) = wd @ precPart"
    by (simp add: butlast_append)
  have pr: "precPart = [] \<or> stopChar (hd precPart)"
    using pp by (auto simp: precDigits_def stopChar_def)
  have pw: "parseInt10 (wd @ precPart) = (if wd = [] then None else Some (int (digitsVal wd)))"
    using parseInt10_digits [OF wd pr] .
  show ?thesis
    unfolding formatValue_def
    by (simp only: nf ex if_True if_False Let_def bl pw z pad_width)
qed

lemma formatValue_d:
  assumes wd: "\<forall>c \<in> set wd. isDigit c" and pp: "precDigits precPart pd"
    and small: "\<bar>\<lfloor>v\<rfloor>\<bar> < 10 ^ 21"
  shows "formatValue nts v (wd @ precPart @ ''d'')
      = Inr (replicate (digitsVal wd - length (intToString 10 \<lfloor>v\<rfloor>))
               (if startsWith wd ''0'' then CHR ''0'' else CHR '' '') @ intToString 10 \<lfloor>v\<rfloor>)"
proof -
  let ?rest = "precPart @ ''d''"
  have r: "?rest \<noteq> []" "stopChar (hd ?rest)"
    using pp by (auto simp: precDigits_def stopChar_def)
  have nf: "\<not> endsWith (wd @ ?rest) ''f''" and nx: "\<not> endsWith (wd @ ?rest) ''x''"
    and ed: "endsWith (wd @ ?rest) ''d''"
    by (simp_all add: endsWith_last)
  have z: "startsWith (wd @ ?rest) ''0'' = startsWith wd ''0''"
    using r by (intro startsWith_zero_body) auto
  have bl: "butlast (wd @ ?rest) = wd @ precPart"
    by (simp add: butlast_append)
  have pr: "precPart = [] \<or> stopChar (hd precPart)"
    using pp by (auto simp: precDigits_def stopChar_def)
  have pw: "parseInt10 (wd @ precPart) = (if wd = [] then None else Some (int (digitsVal wd)))"
    using parseInt10_digits [OF wd pr] .
  have fl: "floorToString10 nts v = intToString 10 \<lfloor>v\<rfloor>"
    using small by (simp add: floorToString10_def)
  show ?thesis
    unfolding formatValue_def
    by (simp only: nf nx ed if_True if_False Let_def bl pw z pad_width fl)
qed

lemma formatValue_b:
  "formatValue nts v (s @ ''b'') = Inr (if \<lfloor>v\<rfloor> = 0 then ''no'' else ''yes'')"
proof -
  have "\<not> endsWith (s @ ''b'') ''f''" "\<not> endsWith (s @ ''b'') ''x''"
    "\<not> endsWith (s @ ''b'') ''d''" "endsWith (s @ ''b'') ''b''"
    by (simp_all add: endsWith_last)
  then show ?thesis
    unfolding formatValue_def by (simp only: if_True if_False)
qed

lemma formatted_strip:
  assumes v: "values' a \<noteq> []" and pct: "pct = ''%'' \<or> pct = []"
    and s: "s \<noteq> []" "hd s \<noteq> CHR ''%''" and fmt: "format a = pct @ s"
  shows "deviceAttrGetLatestFormatted nts a = formatValue nts (last (values' a)) s"
proof -
  have nz: "length (values' a) \<noteq> 0" "length (format a) \<noteq> 0"
    using v s fmt by simp_all
  have st: "(if startsWith (format a) ''%'' then drop 1 (format a) else format a) = s"
    unfolding fmt by (rule strip_percent [OF pct s])
  show ?thesis
    unfolding deviceAttrGetLatestFormatted_def st using nz by simp
qed

lemma toFixed_in_range:
  "0 \<le> f \<Longrightarrow> f \<le> 100 \<Longrightarrow> \<exists>body. toFixed nts x (Some f) = Inr body"
  by (simp add: toFixed_def Let_def)

text \<open>
  C7. With no value in the history the result is "N/A". Otherwise, for the latest value
  \<open>v\<close> and a format \<open>%[0][width][.precision]conv\<close> (the \<open>%\<close> may be missing), with
  \<open>W\<close> the number the width digits spell (0 when there are none):
  \<^item> \<open>f\<close>, precision at most 100: the text \<open>toFixed\<close> gives for \<open>v\<close> at that
    precision, with spaces in front up to \<open>W\<close> characters, also when the format begins
    with \<open>0\<close>;
  \<^item> \<open>x\<close>: the lowercase hexadecimal digits of \<open>floor v\<close> (a minus sign first when
    negative), padded in front up to \<open>W\<close> characters with \<open>0\<close> when the format
    begins with \<open>0\<close> and with spaces otherwise;
  \<^item> \<open>d\<close>, for a magnitude below \<open>10^21\<close>: the decimal digits of \<open>floor v\<close>, padded
    the same way;
  \<^item> \<open>b\<close>: "no" when \<open>floor v\<close> is 0 and "yes" otherwise.
  In particular 3.14159 (as the decimal fraction and as the double nearest to it) with
  \<open>%06.2f\<close> gives two spaces and \<open>3.14\<close>, 255 with \<open>%04x\<close> gives \<open>00ff\<close>, and 0
  with \<open>%b\<close> gives "no". Values are the exact values of finite doubles.
\<close>

theorem deviceAttrGetLatestFormatted_rendering:
  "deviceAttrGetLatestFormatted nts (a\<lparr>values' := []\<rparr>) = Inr ''N/A''
   \<and> (values' a \<noteq> [] \<and> (\<forall>c \<in> set wd. isDigit c) \<and> (\<forall>c \<in> set pd. isDigit c)
        \<and> (pct = ''%'' \<or> pct = []) \<and> precDigits precPart pd \<longrightarrow>
        (format a = pct @ wd @ precPart @ ''f'' \<and> digitsVal pd \<le> 100 \<longrightarrow>
           (\<exists>body. toFixed nts (last (values' a)) (Some (int (digitsVal pd))) = Inr body
              \<and> deviceAttrGetLatestFormatted nts a
                  = Inr (replicate (digitsVal wd - length body) CHR '' '' @ body)))
        \<and> (format a = pct @ wd @ precPart @ ''x'' \<longrightarrow>
             deviceAttrGetLatestFormatted nts a
               = Inr (replicate (digitsVal wd - length (intToString 16 \<lfloor>last (values' a)\<rfloor>))
                        (if startsWith wd ''0'' then CHR ''0'' else CHR '' '')
                      @ intToString 16 \<lfloor>last (values' a)\<rfloor>))
        \<and> (format a = pct @ wd @ precPart @ ''d'' \<and> \<bar>\<lfloor>last (values' a)\<rfloor>\<bar> < 10 ^ 21 \<longrightarrow>
             deviceAttrGetLatestFormatted nts a
               = Inr (replicate (digitsVal wd - length (intToString 10 \<lfloor>last (values' a)\<rfloor>))
                        (if startsWith wd ''0'' then CHR ''0'' else CHR '' '')
                      @ intToString 10 \<lfloor>last (values' a)\<rfloor>))
        \<and> (format a = pct @ wd @ precPart @ ''b'' \<longrightarrow>
             deviceAttrGetLatestFormatted nts a
               = Inr (if \<lfloor>last (values' a)\<rfloor> = 0 then ''no'' else ''yes'')))
   \<and> deviceAttrGetLatestFormatted nts
        (exampleAttr\<lparr>values' := [314159 / 100000], format := ''%06.2f''\<rparr>)
        = Inr ''  3.14''
   \<and> deviceAttrGetLatestFormatted nts
        (exampleAttr\<lparr>values' := [3537115888337719 / 1125899906842624],
           format := ''%06.2f''\<rparr>)
        = Inr ''  3.14''
   \<and> deviceAttrGetLatestFormatted nts
        (exampleAttr\<lparr>values' := [255], format := ''%04x''\<rparr>) = Inr ''00ff''
   \<and> deviceAttrGetLatestFormatted nts
        (exampleAttr\<lparr>values' := [0], format := ''%b''\<rparr>) = Inr ''no''"
proof (intro conjI impI)
  show "deviceAttrGetLatestFormatted nts (a\<lparr>values' := []\<rparr>) = Inr ''N/A''"
    by (simp add: deviceAttrGetLatestFormatted_def)
next
  assume h: "values' a \<noteq> [] \<and> (\<forall>c \<in> set wd. isDigit c) \<and> (\<forall>c \<in> set pd. isDigit c)
        \<and> (pct = ''%'' \<or> pct = []) \<and> precDigits precPart pd"
  assume f: "format a = pct @ wd @ precPart @ ''f'' \<and> digitsVal pd \<le> 100"
  have hd: "hd (wd @ precPart @ ''f'') \<noteq> CHR ''%''"
    using h by (intro format_body_head) (auto simp: precDigits_def stopChar_def)
  have strip: "deviceAttrGetLatestFormatted nts a
      = formatValue nts (last (values' a)) (wd @ precPart @ ''f'')"
    using h f hd by (intro formatted_strip [where pct = pct]) auto
  obtain body where b: "toFixed nts (last (values' a)) (Some (int (digitsVal pd))) = Inr body"
    using toFixed_in_range [of "int (digitsVal pd)" nts "last (values' a)"] f by auto
  have "formatValue nts (last (values' a)) (wd @ precPart @ ''f'')
      = Inr (replicate (digitsVal wd - length body) CHR '' '' @ body)"
    using h b by (intro formatValue_f) auto
  with strip b
  show "\<exists>body. toFixed nts (last (values' a)) (Some (int (digitsVal pd))) = Inr body
      \<and> deviceAttrGetLatestFormatted nts a
          = Inr (replicate (digitsVal wd - length body) CHR '' '' @ body)"
    by auto
next
  assume h: "values' a \<noteq> [] \<and> (\<forall>c \<in> set wd. isDigit c) \<and> (\<forall>c \<in> set pd. isDigit c)
        \<and> (pct = ''%'' \<or> pct = []) \<and> precDigits precPart pd"
  assume f: "format a = pct @ wd @ precPart @ ''x''"
  have hd: "hd (wd @ precPart @ ''x'') \<noteq> CHR ''%''"
    using h by (intro format_body_head) (auto simp: precDigits_def stopChar_def)
  have "deviceAttrGetLatestFormatted nts a
      = formatValue nts (last (values' a)) (wd @ precPart @ ''x'')"
    using h f hd by (intro formatted_strip [where pct = pct]) auto
  then show "deviceAttrGetLatestFormatted nts a
      = Inr (replicate (digitsVal wd - length (intToString 16 \<lfloor>last (values' a)\<rfloor>))
               (if startsWith wd ''0'' then CHR ''0'' else CHR '' '')
             @ intToString 16 \<lfloor>last (values' a)\<rfloor>)"
    using h formatValue_x [of wd precPart pd nts "last (values' a)"] by simp
next
  assume h: "values' a \<noteq> [] \<and> (\<forall>c \<in> set wd. isDigit c) \<and> (\<forall>c \<in> set pd. isDigit c)
        \<and> (pct = ''%'' \<or> pct = []) \<and> precDigits precPart pd"
  assume f: "format a = pct @ wd @ precPart @ ''d'' \<and> \<bar>\<lfloor>last (values' a)\<rfloor>\<bar> < 10 ^ 21"
  have hd: "hd (wd @ precPart @ ''d'') \<noteq> CHR ''%''"
    using h by (intro format_body_head) (auto simp: precDigits_def stopChar_def)
  have "deviceAttrGetLatestFormatted nts a
      = formatValue nts (last (values' a)) (wd @ precPart @ ''d'')"
    using h f hd by (intro formatted_strip [where pct = pct]) auto
  then show "deviceAttrGetLatestFormatted nts a
      = Inr (replicate (digitsVal wd - length (intToString 10 \<lfloor>last (values' a)\<rfloor>))
               (if startsWith wd ''0'' then CHR ''0'' else CHR '' '')
             @ intToString 10 \<lfloor>last (values' a)\<rfloor>)"
    using h f formatValue_d [of wd precPart pd "last (values' a)" nts] by simp
next
  assume h: "values' a \<noteq> [] \<and> (\<forall>c \<in> set wd. isDigit c) \<and> (\<forall>c \<in> set pd. isDigit c)
        \<and> (pct = ''%'' \<or> pct = []) \<and> precDigits precPart pd"
  assume f: "format a = pct @ wd @ precPart @ ''b''"
  have hd: "hd (wd @ precPart @ ''b'') \<noteq> CHR ''%''"
    using h by (intro format_body_head) (auto simp: precDigits_def stopChar_def)
  have "deviceAttrGetLatestFormatted nts a
      = formatValue nts (last (values' a)) (wd @ precPart @ ''b'')"
    using h f hd by (intro formatted_strip [where pct = pct]) auto
  then show "deviceAttrGetLatestFormatted nts a
      = Inr (if \<lfloor>last (values' a)\<rfloor> = 0 then ''no'' else ''yes'')"
    using formatValue_b [of nts "last (values' a)" "wd @ precPart"] by simp
next
  show "deviceAttrGetLatestFormatted nts
        (exampleAttr\<lparr>values' := [314159 / 100000], format := ''%06.2f''\<rparr>)
        = Inr ''  3.14''"
    by code_simp
  show "deviceAttrGetLatestFormatted nts
        (exampleAttr\<lparr>values' := [3537115888337719 / 1125899906842624],
           format := ''%06.2f''\<rparr>)
        = Inr ''  3.14''"
    by code_simp
  show "deviceAttrGetLatestFormatted nts
        (exampleAttr\<lparr>values' := [255], format := ''%04x''\<rparr>) = Inr ''00ff''"
    by code_simp
  show "deviceAttrGetLatestFormatted nts
        (exampleAttr\<lparr>values' := [0], format := ''%b''\<rparr>) = Inr ''no''"
    by code_simp
qed

text \<open>The theorem at four attribute states: 42.46 with \<open>%5.1f\<close>, -1.5 with
  \<open>%04x\<close> (the floor is -2), 42.9 with \<open>%5d\<close> and 0.5 with \<open>%b\<close>.\<close>

theorem deviceAttrGetLatestFormatted_rendering_witness:
  "deviceAttrGetLatestFormatted (\<lambda>v. ''?'')
       (exampleAttr\<lparr>values' := [7, 2123 / 50], format := ''%5.1f''\<rparr>) = Inr '' 42.5''
   \<and> deviceAttrGetLatestFormatted (\<lambda>v. ''?'')
       (exampleAttr\<lparr>values' := [7, - 3 / 2], format := ''%04x''\<rparr>) = Inr ''00-2''
   \<and> deviceAttrGetLatestFormatted (\<lambda>v. ''?'')
       (exampleAttr\<lparr>values' := [7, 429 / 10], format := ''%5d''\<rparr>) = Inr ''   42''
   \<and> deviceAttrGetLatestFormatted (\<lambda>v. ''?'')
       (exampleAttr\<lparr>values' := [7, 1 / 2], format := ''%b''\<rparr>) = Inr ''no''"
proof -
  let ?nts = "\<lambda>v :: rat. ''?''"
  have dig: "\<forall>c \<in> set ''5''. isDigit c" "\<forall>c \<in> set ''1''. isDigit c"
    "\<forall>c \<in> set ''04''. isDigit c" "\<forall>c \<in> set ''''. isDigit c"
    by (simp_all add: isDigit_code)
  have dv: "digitsVal ''5'' = 5" "digitsVal ''1'' = 1" "digitsVal ''04'' = 4" "digitsVal '''' = 0"
    by (simp_all add: digitsVal_def digitVal_def)
  have pr: "precDigits ''.1'' ''1''" "precDigits '''' ''''"
    by (simp_all add: precDigits_def)
  have tf: "toFixed ?nts (2123 / 50) (Some 1) = Inr ''42.5''"
    by code_simp
  have hx: "intToString 16 \<lfloor>- 3 / 2 :: rat\<rfloor> = ''-2''"
    by code_simp
  have fl: "\<lfloor>1 / 2 :: rat\<rfloor> = 0"
    by code_simp
  have dc: "intToString 10 \<lfloor>429 / 10 :: rat\<rfloor> = ''42''" "\<lfloor>429 / 10 :: rat\<rfloor> = 42"
    by code_simp+
  have "\<exists>body. toFixed ?nts (2123 / 50) (Some 1) = Inr body
      \<and> deviceAttrGetLatestFormatted ?nts
          (exampleAttr\<lparr>values' := [7, 2123 / 50], format := ''%5.1f''\<rparr>)
          = Inr (replicate (5 - length body) CHR '' '' @ body)"
    using deviceAttrGetLatestFormatted_rendering
      [of ?nts "exampleAttr\<lparr>values' := [7, 2123 / 50], format := ''%5.1f''\<rparr>"
        "''5''" "''1''" "''%''" "''.1''"] dig pr
    by (simp add: dv)
  then have f: "deviceAttrGetLatestFormatted ?nts
      (exampleAttr\<lparr>values' := [7, 2123 / 50], format := ''%5.1f''\<rparr>) = Inr '' 42.5''"
    by (auto simp: tf)
  have x: "deviceAttrGetLatestFormatted ?nts
      (exampleAttr\<lparr>values' := [7, - 3 / 2], format := ''%04x''\<rparr>) = Inr ''00-2''"
    using deviceAttrGetLatestFormatted_rendering
      [of ?nts "exampleAttr\<lparr>values' := [7, - 3 / 2], format := ''%04x''\<rparr>"
        "''04''" "''''" "''%''" "''''"] dig pr hx
    by (simp add: dv startsWith_def eval_nat_numeral)
  have d: "deviceAttrGetLatestFormatted ?nts
      (exampleAttr\<lparr>values' := [7, 429 / 10], format := ''%5d''\<rparr>) = Inr ''   42''"
    using deviceAttrGetLatestFormatted_rendering
      [of ?nts "exampleAttr\<lparr>values' := [7, 429 / 10], format := ''%5d''\<rparr>"
        "''5''" "''''" "''%''" "''''"] dig pr dc
    by (simp add: dv startsWith_def eval_nat_numeral)
  have b: "deviceAttrGetLatestFormatted ?nts
      (exampleAttr\<lparr>values' := [7, 1 / 2], format := ''%b''\<rparr>) = Inr ''no''"
    using deviceAttrGetLatestFormatted_rendering
      [of ?nts "exampleAttr\<lparr>values' := [7, 1 / 2], format := ''%b''\<rparr>"
        "''''" "''''" "''%''" "''''"] dig pr fl
    by simp
  show ?thesis
    using f x d b by simp
qed

section \<open>Single-flight retrieval of device type information (C2)\<close>

text \<open>The keys the frame handler asks for are decimal numerals, which \<open>Object.prototype\<close>
  has no property for: a call for one neither returns an inherited value nor is rejected.\<close>

lemma natToDigits_hd:
  "natToDigits 10 n \<noteq> [] \<and> hd (natToDigits 10 n) \<in> set ''0123456789''"
proof (induction n rule: less_induct)
  case (less n)
  show ?case
  proof (cases "n < 10")
    case True
    have "digitChar n \<in> set ''0123456789''"
      using True
      by (auto simp: digitChar_def less_Suc_eq eval_nat_numeral)
    then show ?thesis
      using True by (subst (1 2) natToDigits.simps) simp
  next
    case False
    then have "n div 10 < n" by simp
    from less [OF this] show ?thesis
      using False by (subst (1 2) natToDigits.simps) simp
  qed
qed

lemma decimal_not_inherited:
  "intToString 10 (int n) \<notin> set objectPrototypeNames"
proof -
  have "hd (intToString 10 (int n)) \<in> set ''0123456789''"
    using natToDigits_hd [of n] by (simp add: intToString_def)
  then show ?thesis
    by (auto simp: objectPrototypeNames_def)
qed

lemma getDeviceTypeInfo_call_decimal:
  "fst (getDeviceTypeInfo_call mgr callId busNm (intToString 10 (int n)) nowMs)
     \<noteq> ReturnedInherited nm
   \<and> fst (getDeviceTypeInfo_call mgr callId busNm (intToString 10 (int n)) nowMs) \<noteq> Rejected"
  using decimal_not_inherited [of n]
  by (simp add: getDeviceTypeInfo_call_def hasProperty_def split: option.splits)

text \<open>One call, in each of its four cases for a key that the cache does not hold.\<close>

lemma call_queued:
  assumes "t \<notin> set objectPrototypeNames"
    and "map_of (cachedDeviceTypeRecs m) t = None"
    and "map_of (pendingDeviceTypeRequests m) t = Some p"
  shows "getDeviceTypeInfo_call m c b t n =
     (Queued, m\<lparr>pendingDeviceTypeRequests :=
        AList.update t (p\<lparr>waitingQueue := waitingQueue p @ [c]\<rparr>) (pendingDeviceTypeRequests m)\<rparr>)"
  using assms by (simp add: getDeviceTypeInfo_call_def hasProperty_def)

lemma call_requested:
  assumes "t \<notin> set objectPrototypeNames"
    and "map_of (cachedDeviceTypeRecs m) t = None"
    and "map_of (pendingDeviceTypeRequests m) t = None"
    and "case map_of (cachedDeviceTypePreviousAttemptTimes m) t of
           None \<Rightarrow> True
         | Some t0 \<Rightarrow> minTimeBetweenDeviceTypeInfoRetrievalMs m \<le> n - t0"
  shows "getDeviceTypeInfo_call m c b t n =
     (Requested,
      m\<lparr>cachedDeviceTypePreviousAttemptTimes :=
           AList.update t n (cachedDeviceTypePreviousAttemptTimes m),
         rpcLog := rpcLog m @ requestsSent m b t,
         pendingDeviceTypeRequests :=
           AList.update t \<lparr>initiator = c, waitingQueue = []\<rparr> (pendingDeviceTypeRequests m)\<rparr>)"
  using assms
  by (auto simp: getDeviceTypeInfo_call_def hasProperty_def requestsSent_def
      split: option.splits)

lemma call_rate_limited:
  assumes "t \<notin> set objectPrototypeNames"
    and "map_of (cachedDeviceTypeRecs m) t = None"
    and "map_of (pendingDeviceTypeRequests m) t = None"
    and "map_of (cachedDeviceTypePreviousAttemptTimes m) t = Some t0"
    and "n - t0 < minTimeBetweenDeviceTypeInfoRetrievalMs m"
  shows "getDeviceTypeInfo_call m c b t n = (Returned None, m)"
  using assms by (simp add: getDeviceTypeInfo_call_def hasProperty_def)

lemma call_inherited:
  assumes "t \<in> set objectPrototypeNames"
    and "map_of (cachedDeviceTypeRecs m) t = None"
  shows "getDeviceTypeInfo_call m c b t n = (ReturnedInherited t, m)"
  using assms by (simp add: getDeviceTypeInfo_call_def hasProperty_def)

lemma callAll_Cons:
  "callAll m t ((i, b, n) # cs) =
     (fst (getDeviceTypeInfo_call m i b t n) # fst (callAll (snd (getDeviceTypeInfo_call m i b t n)) t cs),
      snd (callAll (snd (getDeviceTypeInfo_call m i b t n)) t cs))"
  by (simp add: Let_def split: prod.splits)

lemma callAll_queued:
  assumes "t \<notin> set objectPrototypeNames"
    and "map_of (cachedDeviceTypeRecs m) t = None"
    and "map_of (pendingDeviceTypeRequests m) t = Some p"
  shows "fst (callAll m t calls) = replicate (length calls) Queued
    \<and> rpcLog (snd (callAll m t calls)) = rpcLog m
    \<and> cachedDeviceTypeRecs (snd (callAll m t calls)) = cachedDeviceTypeRecs m
    \<and> msgHandlerOf (snd (callAll m t calls)) = msgHandlerOf m
    \<and> map_of (pendingDeviceTypeRequests (snd (callAll m t calls))) t
         = Some (p\<lparr>waitingQueue := waitingQueue p @ map fst calls\<rparr>)"
  using assms(2,3)
proof (induction calls arbitrary: m p)
  case Nil
  then show ?case by simp
next
  case (Cons c cs)
  obtain i b n where c: "c = (i, b, n)" by (cases c)
  let ?m' = "m\<lparr>pendingDeviceTypeRequests :=
        AList.update t (p\<lparr>waitingQueue := waitingQueue p @ [i]\<rparr>) (pendingDeviceTypeRequests m)\<rparr>"
  have q: "getDeviceTypeInfo_call m i b t n = (Queued, ?m')"
    using assms(1) Cons.prems by (rule call_queued)
  have "map_of (cachedDeviceTypeRecs ?m') t = None"
    and "map_of (pendingDeviceTypeRequests ?m') t = Some (p\<lparr>waitingQueue := waitingQueue p @ [i]\<rparr>)"
    using Cons.prems by (simp_all add: update_conv')
  from Cons.IH [OF this] show ?case
    by (simp add: c callAll_Cons q msgHandlerOf_def del: callAll.simps)
qed

lemma callAll_unchanged:
  assumes "\<And>c b n. (c, b, n) \<in> set calls \<Longrightarrow> getDeviceTypeInfo_call m c b t n = (out, m)"
  shows "callAll m t calls = (replicate (length calls) out, m)"
  using assms
proof (induction calls)
  case Nil
  then show ?case by simp
next
  case (Cons c cs)
  obtain i b n where c: "c = (i, b, n)" by (cases c)
  have one: "getDeviceTypeInfo_call m i b t n = (out, m)"
    using Cons.prems [of i b n] by (simp add: c)
  have "callAll m t cs = (replicate (length cs) out, m)"
    using Cons.prems by (intro Cons.IH) simp
  then show ?case
    by (simp add: c one)
qed

lemma settle_pending:
  assumes "map_of (pendingDeviceTypeRequests m) t = Some p"
  shows "getDeviceTypeInfo_settle m t reply =
     (settledResult m reply,
      map (\<lambda>w. (w, settledResult m reply)) (waitingQueue p) @ [(initiator p, settledResult m reply)],
      (case msgHandlerOf m of
         None \<Rightarrow> m
       | Some h \<Rightarrow>
           (case reply of
              RpcReply rslt devinfo \<Rightarrow>
                if rslt = ''ok''
                then m\<lparr>cachedDeviceTypeRecs := AList.update t devinfo (cachedDeviceTypeRecs m)\<rparr>
                else m
            | _ \<Rightarrow> m))
      \<lparr>pendingDeviceTypeRequests := AList.delete t (pendingDeviceTypeRequests m)\<rparr>)"
  using assms
  by (cases reply; cases "msgHandlerOf m")
     (simp_all add: getDeviceTypeInfo_settle_def settledResult_def replyResult_def Let_def)

lemma first_call_then_waiters:
  assumes "devType \<notin> set objectPrototypeNames"
    and "map_of (cachedDeviceTypeRecs mgr) devType = None"
    and "map_of (pendingDeviceTypeRequests mgr) devType = None"
    and "case map_of (cachedDeviceTypePreviousAttemptTimes mgr) devType of
           None \<Rightarrow> True
         | Some t0 \<Rightarrow> minTimeBetweenDeviceTypeInfoRetrievalMs mgr \<le> nowMs - t0"
  shows "(let (outs, mgr1) = callAll mgr devType ((callId, busNm, nowMs) # others);
              (result, deliveries, mgr2) = getDeviceTypeInfo_settle mgr1 devType reply
          in outs = Requested # replicate (length others) Queued
             \<and> rpcLog mgr1 = rpcLog mgr @ requestsSent mgr busNm devType
             \<and> rpcLog mgr2 = rpcLog mgr1
             \<and> result = settledResult mgr reply
             \<and> deliveries = map (\<lambda>c. (c, result)) (map fst others @ [callId])
             \<and> map_of (pendingDeviceTypeRequests mgr2) devType = None
             \<and> map_of (cachedDeviceTypeRecs mgr2) devType =
                 (case msgHandlerOf mgr of
                    None \<Rightarrow> None
                  | Some h \<Rightarrow>
                      (case reply of
                         RpcReply rslt devinfo \<Rightarrow> if rslt = ''ok'' then Some devinfo else None
                       | _ \<Rightarrow> None)))"
proof -
  let ?m1 = "mgr\<lparr>cachedDeviceTypePreviousAttemptTimes :=
           AList.update devType nowMs (cachedDeviceTypePreviousAttemptTimes mgr),
         rpcLog := rpcLog mgr @ requestsSent mgr busNm devType,
         pendingDeviceTypeRequests :=
           AList.update devType \<lparr>initiator = callId, waitingQueue = []\<rparr>
             (pendingDeviceTypeRequests mgr)\<rparr>"
  let ?p = "\<lparr>initiator = callId, waitingQueue = []\<rparr>"
  have first: "getDeviceTypeInfo_call mgr callId busNm devType nowMs = (Requested, ?m1)"
    using assms by (rule call_requested)
  have c1: "map_of (cachedDeviceTypeRecs ?m1) devType = None"
    using assms(2) by simp
  have p1: "map_of (pendingDeviceTypeRequests ?m1) devType = Some ?p"
    by (simp add: update_conv')
  note q = callAll_queued [OF assms(1) c1 p1, of others]
  let ?m2 = "snd (callAll ?m1 devType others)"
  have h2: "msgHandlerOf ?m2 = msgHandlerOf mgr"
    using q by (simp add: msgHandlerOf_def)
  have p2: "map_of (pendingDeviceTypeRequests ?m2) devType
      = Some (?p\<lparr>waitingQueue := map fst others\<rparr>)"
    using q by simp
  have c2: "map_of (cachedDeviceTypeRecs ?m2) devType = None"
    using q c1 by simp
  have all: "callAll mgr devType ((callId, busNm, nowMs) # others)
      = (Requested # replicate (length others) Queued, ?m2)"
    using q by (simp add: callAll_Cons first del: callAll.simps)
  have log1: "rpcLog ?m2 = rpcLog mgr @ requestsSent mgr busNm devType"
    using q by simp
  have res: "settledResult ?m2 reply = settledResult mgr reply"
    by (simp add: settledResult_def h2)
  show ?thesis
    unfolding all settle_pending [OF p2] Let_def prod.case res h2
    using log1 c2
    by (cases reply; cases "msgHandlerOf mgr") (simp_all add: delete_conv update_conv')
qed

text \<open>
  Claim C2, with the conditions under which it holds. Take a device-type key with no cached
  schema and no request in flight.
  \<^item> If the key is not the name of a property that every object inherits from
    \<open>Object.prototype\<close>, and no attempt for it was made within the minimum retry interval:
    a first call followed by any number of further calls made before the fetch settles
    starts exactly one fetch, by the first call; every later call is queued. The fetch sends
    one command, for the key and the first caller's bus, when a message handler is
    available, and none otherwise. When it settles, every caller receives the identical
    result: the schema of an \<open>ok\<close> reply, and undefined for any other reply, for a
    failure, and when there was no handler. Settling sends nothing, removes the
    pending-request entry of the key, and caches the schema of an \<open>ok\<close> reply.
  \<^item> If the key is not such a name, and its last attempt is less than the minimum retry
    interval before each of the calls: every call returns undefined at once and nothing
    changes, so no fetch is made.
  \<^item> If the key is such a name: every call returns the inherited value at once and nothing
    changes, so no fetch is made.
\<close>

theorem single_flight_type_info:
  "(devType \<notin> set objectPrototypeNames
      \<and> map_of (cachedDeviceTypeRecs mgr) devType = None
      \<and> map_of (pendingDeviceTypeRequests mgr) devType = None \<longrightarrow>
      ((case map_of (cachedDeviceTypePreviousAttemptTimes mgr) devType of
          None \<Rightarrow> True
        | Some t0 \<Rightarrow> minTimeBetweenDeviceTypeInfoRetrievalMs mgr \<le> nowMs - t0) \<longrightarrow>
       (let (outs, mgr1) = callAll mgr devType ((callId, busNm, nowMs) # others);
            (result, deliveries, mgr2) = getDeviceTypeInfo_settle mgr1 devType reply
        in outs = Requested # replicate (length others) Queued
           \<and> rpcLog mgr1 = rpcLog mgr @ requestsSent mgr busNm devType
           \<and> rpcLog mgr2 = rpcLog mgr1
           \<and> result = settledResult mgr reply
           \<and> deliveries = map (\<lambda>c. (c, result)) (map fst others @ [callId])
           \<and> map_of (pendingDeviceTypeRequests mgr2) devType = None
           \<and> map_of (cachedDeviceTypeRecs mgr2) devType =
               (case msgHandlerOf mgr of
                  None \<Rightarrow> None
                | Some h \<Rightarrow>
                    (case reply of
                       RpcReply rslt devinfo \<Rightarrow> if rslt = ''ok'' then Some devinfo else None
                     | _ \<Rightarrow> None))))
      \<and> (map_of (cachedDeviceTypePreviousAttemptTimes mgr) devType = Some lastAttempt
           \<and> (\<forall>call \<in> set calls.
                 snd (snd call) - lastAttempt < minTimeBetweenDeviceTypeInfoRetrievalMs mgr) \<longrightarrow>
          callAll mgr devType calls = (replicate (length calls) (Returned None), mgr)))
   \<and> (devType \<in> set objectPrototypeNames
        \<and> map_of (cachedDeviceTypeRecs mgr) devType = None \<longrightarrow>
        callAll mgr devType calls = (replicate (length calls) (ReturnedInherited devType), mgr))"
proof (intro conjI impI)
  assume a: "devType \<notin> set objectPrototypeNames
      \<and> map_of (cachedDeviceTypeRecs mgr) devType = None
      \<and> map_of (pendingDeviceTypeRequests mgr) devType = None"
  assume b: "case map_of (cachedDeviceTypePreviousAttemptTimes mgr) devType of
          None \<Rightarrow> True
        | Some t0 \<Rightarrow> minTimeBetweenDeviceTypeInfoRetrievalMs mgr \<le> nowMs - t0"
  from a b show "let (outs, mgr1) = callAll mgr devType ((callId, busNm, nowMs) # others);
            (result, deliveries, mgr2) = getDeviceTypeInfo_settle mgr1 devType reply
        in outs = Requested # replicate (length others) Queued
           \<and> rpcLog mgr1 = rpcLog mgr @ requestsSent mgr busNm devType
           \<and> rpcLog mgr2 = rpcLog mgr1
           \<and> result = settledResult mgr reply
           \<and> deliveries = map (\<lambda>c. (c, result)) (map fst others @ [callId])
           \<and> map_of (pendingDeviceTypeRequests mgr2) devType = None
           \<and> map_of (cachedDeviceTypeRecs mgr2) devType =
               (case msgHandlerOf mgr of
                  None \<Rightarrow> None
                | Some h \<Rightarrow>
                    (case reply of
                       RpcReply rslt devinfo \<Rightarrow> if rslt = ''ok'' then Some devinfo else None
                     | _ \<Rightarrow> None))"
    by (intro first_call_then_waiters) simp_all
next
  assume a: "devType \<notin> set objectPrototypeNames
      \<and> map_of (cachedDeviceTypeRecs mgr) devType = None
      \<and> map_of (pendingDeviceTypeRequests mgr) devType = None"
  assume b: "map_of (cachedDeviceTypePreviousAttemptTimes mgr) devType = Some lastAttempt
           \<and> (\<forall>call \<in> set calls.
                 snd (snd call) - lastAttempt < minTimeBetweenDeviceTypeInfoRetrievalMs mgr)"
  show "callAll mgr devType calls = (replicate (length calls) (Returned None), mgr)"
  proof (rule callAll_unchanged)
    fix c b n
    assume "(c, b, n) \<in> set calls"
    then have "n - lastAttempt < minTimeBetweenDeviceTypeInfoRetrievalMs mgr"
      using b by fastforce
    then show "getDeviceTypeInfo_call mgr c b devType n = (Returned None, mgr)"
      using a b by (intro call_rate_limited [where ?t0.0 = lastAttempt]) simp_all
  qed
next
  assume a: "devType \<in> set objectPrototypeNames
        \<and> map_of (cachedDeviceTypeRecs mgr) devType = None"
  show "callAll mgr devType calls = (replicate (length calls) (ReturnedInherited devType), mgr)"
    using a by (intro callAll_unchanged call_inherited) simp_all
qed

lemma readyManager_fields:
  "cachedDeviceTypeRecs readyManager = []"
  "pendingDeviceTypeRequests readyManager = []"
  "cachedDeviceTypePreviousAttemptTimes readyManager = []"
  "msgHandlerOf readyManager = Some (\<lambda>cmd. RpcReply ''ok'' (Some exampleTypeInfo))"
  "rpcLog readyManager = []"
  by (simp_all add: readyManager_def setupManager_def newDeviceManager_def exampleUtils_def
      msgHandlerOf_def)

lemma newDeviceManager_fields:
  "cachedDeviceTypeRecs newDeviceManager = []"
  "pendingDeviceTypeRequests newDeviceManager = []"
  "cachedDeviceTypePreviousAttemptTimes newDeviceManager = []"
  "msgHandlerOf newDeviceManager = None"
  "rpcLog newDeviceManager = []"
  by (simp_all add: newDeviceManager_def msgHandlerOf_def)

lemma failedOnceManager_eq:
  "failedOnceManager =
     readyManager\<lparr>cachedDeviceTypePreviousAttemptTimes := [(''12'', 0)],
                  rpcLog := [''devman/typeinfo?bus=bus0&type=12''],
                  pendingDeviceTypeRequests := []\<rparr>"
proof -
  let ?m1 = "readyManager\<lparr>cachedDeviceTypePreviousAttemptTimes :=
           AList.update ''12'' 0 (cachedDeviceTypePreviousAttemptTimes readyManager),
         rpcLog := rpcLog readyManager @ requestsSent readyManager ''bus0'' ''12'',
         pendingDeviceTypeRequests :=
           AList.update ''12'' \<lparr>initiator = 0, waitingQueue = []\<rparr>
             (pendingDeviceTypeRequests readyManager)\<rparr>"
  have c: "getDeviceTypeInfo_call readyManager 0 ''bus0'' ''12'' 0 = (Requested, ?m1)"
    by (rule call_requested) (simp_all add: readyManager_fields objectPrototypeNames_def)
  have p: "map_of (pendingDeviceTypeRequests ?m1) ''12'' = Some \<lparr>initiator = 0, waitingQueue = []\<rparr>"
    by (simp add: readyManager_fields)
  have h: "msgHandlerOf ?m1 = msgHandlerOf readyManager"
    by (simp add: msgHandlerOf_def)
  show ?thesis
    unfolding failedOnceManager_def c snd_conv settle_pending [OF p] h
    by (simp add: readyManager_fields requestsSent_def typeInfoCmd_def)
qed

lemma failedOnceManager_fields:
  "cachedDeviceTypeRecs failedOnceManager = []"
  "pendingDeviceTypeRequests failedOnceManager = []"
  "cachedDeviceTypePreviousAttemptTimes failedOnceManager = [(''12'', 0)]"
  "minTimeBetweenDeviceTypeInfoRetrievalMs failedOnceManager = 60000"
  "rpcLog failedOnceManager = [''devman/typeinfo?bus=bus0&type=12'']"
  by (simp_all add: failedOnceManager_eq readyManager_fields)
     (simp add: readyManager_def setupManager_def newDeviceManager_def)

lemma example_names:
  "''12'' \<notin> set objectPrototypeNames"
  "''constructor'' \<in> set objectPrototypeNames"
  by (simp_all add: objectPrototypeNames_def)

text \<open>
  Five simultaneous calls for type \<open>12\<close> on \<open>bus0\<close> against a manager that is set up:
  one command is sent and all five callers receive the fetched schema. Two calls for type
  \<open>12\<close> less than a minute after its failed attempt, and two calls for \<open>toString\<close>,
  return at once and change nothing.
\<close>

theorem single_flight_type_info_witness:
  "(let (outs, mgr1) = callAll readyManager ''12'' (fiveCalls 5);
        (result, deliveries, mgr2) =
           getDeviceTypeInfo_settle mgr1 ''12'' (RpcReply ''ok'' (Some exampleTypeInfo))
    in outs = [Requested, Queued, Queued, Queued, Queued]
       \<and> rpcLog mgr1 = [''devman/typeinfo?bus=bus0&type=12'']
       \<and> rpcLog mgr2 = [''devman/typeinfo?bus=bus0&type=12'']
       \<and> result = Some exampleTypeInfo
       \<and> deliveries = [(2, Some exampleTypeInfo), (3, Some exampleTypeInfo),
                       (4, Some exampleTypeInfo), (5, Some exampleTypeInfo),
                       (1, Some exampleTypeInfo)]
       \<and> map_of (pendingDeviceTypeRequests mgr2) ''12'' = None
       \<and> map_of (cachedDeviceTypeRecs mgr2) ''12'' = Some (Some exampleTypeInfo))
   \<and> callAll failedOnceManager ''12'' [(6, ''bus0'', 59999), (7, ''bus1'', 59999)]
        = ([Returned None, Returned None], failedOnceManager)
   \<and> callAll readyManager ''toString'' [(8, ''bus0'', 5), (9, ''bus0'', 6)]
        = ([ReturnedInherited ''toString'', ReturnedInherited ''toString''], readyManager)"
  using single_flight_type_info
    [of "''12'' " readyManager 5 1 "''bus0'' "
        "[(2, ''bus0'', 5), (3, ''bus0'', 5), (4, ''bus0'', 5), (5, ''bus0'', 5)]"
        "RpcReply ''ok'' (Some exampleTypeInfo)" 0 "[]"]
    single_flight_type_info
    [of "''12'' " failedOnceManager 0 0 "''bus0'' " "[]" RpcNull 0
        "[(6, ''bus0'', 59999), (7, ''bus1'', 59999)]"]
    single_flight_type_info
    [of "''toString'' " readyManager 0 0 "''bus0'' " "[]" RpcNull 0
        "[(8, ''bus0'', 5), (9, ''bus0'', 6)]"]
  by (simp add: readyManager_fields failedOnceManager_fields fiveCalls_def
        objectPrototypeNames_def typeInfoCmd_def replyResult_def settledResult_def
        requestsSent_def eval_nat_numeral
        split: prod.splits del: callAll.simps)

text \<open>
  The claim as it is stated, for every key with no cached schema, fails in three ways; in
  each, five concurrent calls for a key with no cached schema send no fetch request at all.
  \<^item> After one failed fetch at time 0, five calls for \<open>12\<close> at time 1000 are rate limited:
    each returns undefined at once and the manager is unchanged.
  \<^item> On a manager without system utilities there is no message handler: the first call
    starts the fetch and the others are queued, but no command is sent, before or at
    settlement.
  \<^item> For the key \<open>constructor\<close> the cache test \<open>deviceType in this._cachedDeviceTypeRecs\<close>
    succeeds on the empty cache: each call returns the inherited value, which is neither a
    schema nor undefined, and the manager is unchanged.
\<close>

theorem single_flight_counterexample:
  "map_of (cachedDeviceTypeRecs failedOnceManager) ''12'' = None
   \<and> callAll failedOnceManager ''12'' (fiveCalls 1000)
       = (replicate 5 (Returned None), failedOnceManager)
   \<and> map_of (cachedDeviceTypeRecs newDeviceManager) ''12'' = None
   \<and> fst (callAll newDeviceManager ''12'' (fiveCalls 1000))
       = [Requested, Queued, Queued, Queued, Queued]
   \<and> rpcLog (snd (snd (getDeviceTypeInfo_settle
         (snd (callAll newDeviceManager ''12'' (fiveCalls 1000))) ''12''
         (RpcReply ''ok'' (Some exampleTypeInfo))))) = []
   \<and> map_of (cachedDeviceTypeRecs readyManager) ''constructor'' = None
   \<and> callAll readyManager ''constructor'' (fiveCalls 1000)
       = (replicate 5 (ReturnedInherited ''constructor''), readyManager)"
proof -
  have limited: "getDeviceTypeInfo_call failedOnceManager c ''bus0'' ''12'' 1000
      = (Returned None, failedOnceManager)" for c
    by (rule call_rate_limited [where ?t0.0 = 0])
       (simp_all add: failedOnceManager_fields example_names)
  have inherited: "getDeviceTypeInfo_call readyManager c ''bus0'' ''constructor'' 1000
      = (ReturnedInherited ''constructor'', readyManager)" for c
    by (rule call_inherited) (simp_all add: readyManager_fields example_names)
  have nohandler: "(let (outs, mgr1) = callAll newDeviceManager ''12'' ((1, ''bus0'', 1000) #
            [(2, ''bus0'', 1000), (3, ''bus0'', 1000), (4, ''bus0'', 1000), (5, ''bus0'', 1000)]);
            (result, deliveries, mgr2) = getDeviceTypeInfo_settle mgr1 ''12''
               (RpcReply ''ok'' (Some exampleTypeInfo))
        in outs = Requested # replicate (length [(2::nat, ''bus0'', 1000::int), (3, ''bus0'', 1000), (4, ''bus0'', 1000), (5, ''bus0'', 1000)]) Queued
           \<and> rpcLog mgr1 = rpcLog newDeviceManager @ requestsSent newDeviceManager ''bus0'' ''12''
           \<and> rpcLog mgr2 = rpcLog mgr1)"
    using first_call_then_waiters [of "''12'' " newDeviceManager 1000 1 "''bus0'' "
        "[(2, ''bus0'', 1000), (3, ''bus0'', 1000), (4, ''bus0'', 1000), (5, ''bus0'', 1000)]"
        "RpcReply ''ok'' (Some exampleTypeInfo)"]
    by (simp add: newDeviceManager_fields example_names split: prod.splits del: callAll.simps)
  have one: "callAll failedOnceManager ''12'' (fiveCalls 1000)
       = (replicate 5 (Returned None), failedOnceManager)"
    by (simp add: fiveCalls_def limited eval_nat_numeral)
  have three: "callAll readyManager ''constructor'' (fiveCalls 1000)
       = (replicate 5 (ReturnedInherited ''constructor''), readyManager)"
    by (simp add: fiveCalls_def inherited eval_nat_numeral)
  have two: "fst (callAll newDeviceManager ''12'' (fiveCalls 1000))
       = [Requested, Queued, Queued, Queued, Queued]
     \<and> rpcLog (snd (snd (getDeviceTypeInfo_settle
         (snd (callAll newDeviceManager ''12'' (fiveCalls 1000))) ''12''
         (RpcReply ''ok'' (Some exampleTypeInfo))))) = []"
    using nohandler
    by (simp add: newDeviceManager_fields fiveCalls_def requestsSent_def eval_nat_numeral
        split: prod.splits del: callAll.simps)
  show ?thesis
    using one two three
    by (simp add: failedOnceManager_fields readyManager_fields newDeviceManager_fields
        del: callAll.simps)
qed


end
